theory Spec2Isabelle
  imports Main "HOL-Library.Word" "HOL-Library.Sublist"
begin

unbundle bit_operations_syntax

section \<open>TouchState: per-device touch ownership (inputflinger dispatcher)\<close>

text \<open>
  A shallow embedding of \<^verbatim>\<open>services/inputflinger/dispatcher/TouchState.cpp\<close>.
  Every member function of \<^verbatim>\<open>TouchState\<close> that mutates the object becomes a function
  from the state to the updated state; the two accessors that the properties below talk
  about (\<^verbatim>\<open>isSlippery\<close>, \<^verbatim>\<open>getTouchedWindow\<close>) become functions of the
  state.
\<close>

subsection \<open>Scalar types\<close>

type_synonym int32_t = "32 word"   \<comment> \<open>read as signed with \<open>sint\<close>\<close>
type_synonym nsecs_t = "64 word"
type_synonym flags = "32 word"     \<comment> \<open>the integer inside \<^verbatim>\<open>ftl::Flags<E>\<close>\<close>

text \<open>
  \<^verbatim>\<open>sp<WindowInfoHandle>\<close> and \<^verbatim>\<open>sp<IBinder>\<close> are reference-counted pointers, and
  \<^verbatim>\<open>==\<close> on them compares addresses. A handle and a token are therefore addresses.
\<close>

type_synonym handle = nat
type_synonym token = nat

text \<open>
  What TouchState.cpp reads through a window handle: \<^verbatim>\<open>getToken()\<close>,
  \<^verbatim>\<open>getInfo()->inputConfig\<close> and \<^verbatim>\<open>getName()\<close>. The objects live outside the
  touch state, which never writes them, so they are a read-only store from addresses to
  contents. The store is total: the C++ dereferences every handle it holds without a null
  check, so the handles in a touch state are addresses of live objects.
\<close>

record window_info =
  getToken :: token
  inputConfig :: flags
  getName :: string

type_synonym window_store = "handle \<Rightarrow> window_info"

subsection \<open>Flag constants declared outside TouchState.cpp\<close>

text \<open>
  TouchState.cpp names four enumerators of \<^verbatim>\<open>InputTarget::Flags\<close>, the constant
  \<^verbatim>\<open>InputTarget::DISPATCH_MASK\<close> and one enumerator of
  \<^verbatim>\<open>WindowInfo::InputConfig\<close>. Their declarations (InputTarget.h, WindowInfo.h) are
  not part of the file, so their values are a parameter of every function that uses
  them, and whatever a property needs to know about them is a hypothesis of its theorem.
\<close>

record flag_values =
  FOREGROUND :: flags
  DISPATCH_AS_IS :: flags
  DISPATCH_AS_SLIPPERY_EXIT :: flags
  DISPATCH_AS_SLIPPERY_ENTER :: flags
  DISPATCH_MASK :: flags
  SLIPPERY :: flags

subsection \<open>\<^verbatim>\<open>ftl::Flags\<close>\<close>

text \<open>
  The class template \<^verbatim>\<open>ftl::Flags\<close> (ftl/flags.h) wraps an unsigned integer and is
  not part of the file. The spec calls a flags value a bit flag set, which an entry
  "includes" flags of, which flags are OR-ed into, and which a flag or a mask is cleared
  from. \<^verbatim>\<open>|=\<close> is \<open>OR\<close>; the three member functions TouchState.cpp calls follow.
\<close>

text \<open>
  Modelled from the spec: \<^verbatim>\<open>ftl::Flags::test\<close> is missing. A flags value includes a
  flag when it shares a bit with it.
\<close>

definition test :: "flags \<Rightarrow> flags \<Rightarrow> bool" where
  "test m f \<longleftrightarrow> m AND f \<noteq> 0"

text \<open>
  Modelled from the spec: \<^verbatim>\<open>ftl::Flags::any\<close> is missing. A flags value includes
  one of the flags of a mask when it shares a bit with the mask.
\<close>

definition any :: "flags \<Rightarrow> flags \<Rightarrow> bool" where
  "any m f \<longleftrightarrow> m AND f \<noteq> 0"

text \<open>
  Modelled from the spec: \<^verbatim>\<open>ftl::Flags::clear\<close> is missing. Clearing a flag or a mask
  removes its bits and keeps the others.
\<close>

definition clear :: "flags \<Rightarrow> flags \<Rightarrow> flags" where
  "clear m f = m AND NOT f"

subsection \<open>\<^verbatim>\<open>TouchedWindow\<close>\<close>

text \<open>
  Modelled from the spec: the struct \<^verbatim>\<open>TouchedWindow\<close> (TouchedWindow.h) is missing.
  The spec gives the record as \<open>{windowRef, dispatchFlags, touchingPointers,
  hoveringPointers: set of (deviceId, pointerId) pairs, pilferedPointers,
  firstDownTimeInTarget: optional timestamp}\<close>. The field names are the ones
  TouchState.cpp uses; it reaches the hovering pointers through member functions only,
  and that field is called \<open>hoveringPointerIds\<close> here. A pointer set is
  \<^verbatim>\<open>std::bitset<MAX_POINTER_ID + 1>\<close>; \<^verbatim>\<open>MAX_POINTER_ID\<close> is declared elsewhere, so
  the width \<open>LENGTH('p)\<close> of the bit vector is a type parameter: the record is declared
  over the type \<open>'b\<close> of its pointer sets and used at \<open>'b = 'p word\<close>. Pointer
  \<open>n\<close> is in a set when bit \<open>n\<close> is set.
\<close>

record 'b touched_window_rec =
  windowHandle :: handle
  targetFlags :: flags
  pointerIds :: 'b
  hoveringPointerIds :: "(int32_t \<times> int32_t) set"
  pilferedPointerIds :: 'b
  firstDownTimeInTarget :: "nsecs_t option"

type_synonym 'p touched_window = "'p word touched_window_rec"

text \<open>
  Modelled from the spec: the default constructor of \<^verbatim>\<open>TouchedWindow\<close> is missing.
  \<^verbatim>\<open>addOrUpdateWindow\<close> and \<^verbatim>\<open>addHoveringPointerToWindow\<close> start a new entry from
  it ("a new one with exactly the given fields"; "a flags-empty, touch-empty entry"):
  no flags, no pointers, no first down time. The handle of the default value is the null
  pointer, address 0; both callers overwrite it.
\<close>

definition TouchedWindow :: "('p::len) touched_window" where
  "TouchedWindow = \<lparr> windowHandle = 0, targetFlags = 0, pointerIds = 0,
     hoveringPointerIds = {}, pilferedPointerIds = 0, firstDownTimeInTarget = None \<rparr>"

text \<open>
  Modelled from the spec: \<^verbatim>\<open>TouchedWindow::removeTouchingPointer\<close> is missing, one of
  the "direct set operations on the two pointer collections, all idempotent (removing an
  absent element is a no-op)". It takes the pointer out of the touching set. A pointer
  id outside \<open>0..MAX_POINTER_ID\<close> is an element the set cannot hold, so removing it
  changes nothing (\<open>unset_bit n\<close> is the identity on a word of at most \<open>n\<close> bits).
\<close>

definition removeTouchingPointer :: "('p::len) touched_window \<Rightarrow> int32_t \<Rightarrow> 'p touched_window" where
  "removeTouchingPointer w pointerId =
     (if 0 \<le> sint pointerId
      then w\<lparr>pointerIds := unset_bit (nat (sint pointerId)) (pointerIds w)\<rparr>
      else w)"

text \<open>
  Modelled from the spec: \<^verbatim>\<open>TouchedWindow::clearHoveringPointers\<close> is missing; it
  empties the hovering set. (The suffix tells it from the member of \<^verbatim>\<open>TouchState\<close>.)
\<close>

definition clearHoveringPointers_w :: "('p::len) touched_window \<Rightarrow> 'p touched_window" where
  "clearHoveringPointers_w w = w\<lparr>hoveringPointerIds := {}\<rparr>"

text \<open>
  Modelled from the spec: \<^verbatim>\<open>TouchedWindow::addHoveringPointer\<close> is missing; it puts
  the pair of device and pointer into the hovering set.
\<close>

definition addHoveringPointer :: "('p::len) touched_window \<Rightarrow> int32_t \<Rightarrow> int32_t \<Rightarrow> 'p touched_window" where
  "addHoveringPointer w hoveringDeviceId hoveringPointerId =
     w\<lparr>hoveringPointerIds := insert (hoveringDeviceId, hoveringPointerId) (hoveringPointerIds w)\<rparr>"

text \<open>
  Modelled from the spec: \<^verbatim>\<open>TouchedWindow::removeHoveringPointer\<close> is missing; it
  takes the pair of device and pointer out of the hovering set.
\<close>

definition removeHoveringPointer_w :: "('p::len) touched_window \<Rightarrow> int32_t \<Rightarrow> int32_t \<Rightarrow> 'p touched_window" where
  "removeHoveringPointer_w w hoveringDeviceId hoveringPointerId =
     w\<lparr>hoveringPointerIds := hoveringPointerIds w - {(hoveringDeviceId, hoveringPointerId)}\<rparr>"

text \<open>
  Modelled from the spec: \<^verbatim>\<open>TouchedWindow::hasHoveringPointers\<close> is missing; it says
  whether the hovering set is non-empty.
\<close>

definition hasHoveringPointers :: "('p::len) touched_window \<Rightarrow> bool" where
  "hasHoveringPointers w \<longleftrightarrow> hoveringPointerIds w \<noteq> {}"

subsection \<open>\<^verbatim>\<open>TouchState\<close>\<close>

text \<open>
  The fields TouchState.cpp uses: \<^verbatim>\<open>deviceId\<close> and \<^verbatim>\<open>source\<close> (printed by
  \<^verbatim>\<open>dump\<close>) and the vector \<^verbatim>\<open>windows\<close>. \<^verbatim>\<open>reset\<close> assigns a default-constructed
  object; the default values of the two scalar fields are declared in TouchState.h and
  are parameters here. The member functions that are not modelled
  (\<^verbatim>\<open>getFirstForegroundWindowHandle\<close>, \<^verbatim>\<open>getWallpaperWindow\<close>, \<^verbatim>\<open>isDown\<close>,
  \<^verbatim>\<open>getWindowsWithHoveringPointer\<close>, \<^verbatim>\<open>dump\<close>) are \<^verbatim>\<open>const\<close>: they read the
  state and leave it as it is.
\<close>

record 'b touch_state_rec =
  deviceId :: int32_t
  source :: "32 word"
  windows :: "'b touched_window_rec list"

type_synonym 'p touch_state = "'p word touch_state_rec"

definition reset :: "int32_t \<Rightarrow> 32 word \<Rightarrow> ('p::len) touch_state \<Rightarrow> 'p touch_state" where
  "reset defaultDeviceId defaultSource s =
     \<lparr> deviceId = defaultDeviceId, source = defaultSource, windows = [] \<rparr>"

text \<open>A range-for that calls a mutator on every element is a \<open>map\<close>.\<close>

definition removeTouchedPointer :: "int32_t \<Rightarrow> ('p::len) touch_state \<Rightarrow> 'p touch_state" where
  "removeTouchedPointer pointerId s =
     s\<lparr>windows := map (\<lambda>touchedWindow. removeTouchingPointer touchedWindow pointerId) (windows s)\<rparr>"

text \<open>A range-for that returns at the first match: recursion that stops there.\<close>

fun removeTouchedPointerFromWindow_loop ::
  "int32_t \<Rightarrow> handle \<Rightarrow> ('p::len) touched_window list \<Rightarrow> 'p touched_window list" where
  "removeTouchedPointerFromWindow_loop pointerId h [] = []"
| "removeTouchedPointerFromWindow_loop pointerId h (touchedWindow # rest) =
     (if windowHandle touchedWindow = h
      then removeTouchingPointer touchedWindow pointerId # rest
      else touchedWindow # removeTouchedPointerFromWindow_loop pointerId h rest)"

definition removeTouchedPointerFromWindow ::
  "int32_t \<Rightarrow> handle \<Rightarrow> ('p::len) touch_state \<Rightarrow> 'p touch_state" where
  "removeTouchedPointerFromWindow pointerId h s =
     s\<lparr>windows := removeTouchedPointerFromWindow_loop pointerId h (windows s)\<rparr>"

definition clearHoveringPointers :: "('p::len) touch_state \<Rightarrow> 'p touch_state" where
  "clearHoveringPointers s = s\<lparr>windows := map clearHoveringPointers_w (windows s)\<rparr>"

text \<open>\<^verbatim>\<open>std::erase_if\<close> keeps, in order, the elements the predicate rejects.\<close>

definition clearWindowsWithoutPointers :: "('p::len) touch_state \<Rightarrow> 'p touch_state" where
  "clearWindowsWithoutPointers s =
     s\<lparr>windows := filter (\<lambda>w. \<not> (pointerIds w = 0 \<and> \<not> hasHoveringPointers w)) (windows s)\<rparr>"

fun addOrUpdateWindow_loop ::
  "flag_values \<Rightarrow> handle \<Rightarrow> flags \<Rightarrow> ('p::len) word \<Rightarrow> nsecs_t option \<Rightarrow>
   'p touched_window list \<Rightarrow> 'p touched_window list" where
  "addOrUpdateWindow_loop K h tf pids fdt [] =
     [TouchedWindow\<lparr>windowHandle := h, targetFlags := tf, pointerIds := pids,
                    firstDownTimeInTarget := fdt\<rparr>]"
| "addOrUpdateWindow_loop K h tf pids fdt (touchedWindow # rest) =
     (if windowHandle touchedWindow = h
      then (let w1 = touchedWindow\<lparr>targetFlags := targetFlags touchedWindow OR tf\<rparr>;
                w2 = (if test tf (DISPATCH_AS_SLIPPERY_EXIT K)
                      then w1\<lparr>targetFlags := clear (targetFlags w1) (DISPATCH_AS_IS K)\<rparr>
                      else w1);
                w3 = w2\<lparr>pointerIds := pointerIds w2 OR pids\<rparr>;
                w4 = (if firstDownTimeInTarget w3 = None
                      then w3\<lparr>firstDownTimeInTarget := fdt\<rparr>
                      else w3)
            in w4 # rest)
      else touchedWindow # addOrUpdateWindow_loop K h tf pids fdt rest)"

definition addOrUpdateWindow ::
  "flag_values \<Rightarrow> handle \<Rightarrow> flags \<Rightarrow> ('p::len) word \<Rightarrow> nsecs_t option \<Rightarrow>
   'p touch_state \<Rightarrow> 'p touch_state" where
  "addOrUpdateWindow K h tf pids fdt s =
     s\<lparr>windows := addOrUpdateWindow_loop K h tf pids fdt (windows s)\<rparr>"

fun addHoveringPointerToWindow_loop ::
  "handle \<Rightarrow> int32_t \<Rightarrow> int32_t \<Rightarrow> ('p::len) touched_window list \<Rightarrow> 'p touched_window list" where
  "addHoveringPointerToWindow_loop h hoveringDeviceId hoveringPointerId [] =
     [addHoveringPointer (TouchedWindow\<lparr>windowHandle := h\<rparr>) hoveringDeviceId hoveringPointerId]"
| "addHoveringPointerToWindow_loop h hoveringDeviceId hoveringPointerId (touchedWindow # rest) =
     (if windowHandle touchedWindow = h
      then addHoveringPointer touchedWindow hoveringDeviceId hoveringPointerId # rest
      else touchedWindow #
           addHoveringPointerToWindow_loop h hoveringDeviceId hoveringPointerId rest)"

definition addHoveringPointerToWindow ::
  "handle \<Rightarrow> int32_t \<Rightarrow> int32_t \<Rightarrow> ('p::len) touch_state \<Rightarrow> 'p touch_state" where
  "addHoveringPointerToWindow h hoveringDeviceId hoveringPointerId s =
     s\<lparr>windows := addHoveringPointerToWindow_loop h hoveringDeviceId hoveringPointerId (windows s)\<rparr>"

text \<open>
  The two loops over an index keep the index: \<^verbatim>\<open>erase(begin() + i)\<close> removes position
  \<open>i\<close> and shifts the tail down.
\<close>

definition erase_at :: "nat \<Rightarrow> 'a list \<Rightarrow> 'a list" where
  "erase_at i xs = take i xs @ drop (Suc i) xs"

function removeWindowByToken_loop ::
  "window_store \<Rightarrow> token \<Rightarrow> nat \<Rightarrow> ('p::len) touched_window list \<Rightarrow> 'p touched_window list" where
  "removeWindowByToken_loop info tok i ws =
     (if i < length ws
      then (if getToken (info (windowHandle (ws ! i))) = tok
            then erase_at i ws
            else removeWindowByToken_loop info tok (i + 1) ws)
      else ws)"
  by pat_completeness auto
termination
  by (relation "measure (\<lambda>(info, tok, i, ws). length ws - i)") auto

declare removeWindowByToken_loop.simps [simp del]

definition removeWindowByToken ::
  "window_store \<Rightarrow> token \<Rightarrow> ('p::len) touch_state \<Rightarrow> 'p touch_state" where
  "removeWindowByToken info tok s = s\<lparr>windows := removeWindowByToken_loop info tok 0 (windows s)\<rparr>"

function filterNonAsIsTouchWindows_loop ::
  "flag_values \<Rightarrow> nat \<Rightarrow> ('p::len) touched_window list \<Rightarrow> 'p touched_window list" where
  "filterNonAsIsTouchWindows_loop K i ws =
     (if i < length ws
      then (let window = ws ! i in
            if any (targetFlags window) (DISPATCH_AS_IS K OR DISPATCH_AS_SLIPPERY_ENTER K)
            then filterNonAsIsTouchWindows_loop K (i + 1)
                   (ws[i := window\<lparr>targetFlags :=
                                      clear (targetFlags window) (DISPATCH_MASK K)
                                      OR DISPATCH_AS_IS K\<rparr>])
            else filterNonAsIsTouchWindows_loop K i (erase_at i ws))
      else ws)"
  by pat_completeness auto
termination
  by (relation "measure (\<lambda>(K, i, ws). length ws - i)") (auto simp: erase_at_def)

declare filterNonAsIsTouchWindows_loop.simps [simp del]

definition filterNonAsIsTouchWindows :: "flag_values \<Rightarrow> ('p::len) touch_state \<Rightarrow> 'p touch_state" where
  "filterNonAsIsTouchWindows K s = s\<lparr>windows := filterNonAsIsTouchWindows_loop K 0 (windows s)\<rparr>"

text \<open>\<^verbatim>\<open>std::for_each\<close> with a mutating lambda is a \<open>map\<close>; \<^verbatim>\<open>&= ~x\<close> is \<open>AND NOT x\<close>.\<close>

definition cancelPointersForWindowsExcept ::
  "window_store \<Rightarrow> ('p::len) word \<Rightarrow> token \<Rightarrow> 'p touch_state \<Rightarrow> 'p touch_state" where
  "cancelPointersForWindowsExcept info pids tok s =
     (if pids = 0 then s
      else s\<lparr>windows :=
             filter (\<lambda>w. \<not> pointerIds w = 0)
               (map (\<lambda>w. if getToken (info (windowHandle w)) \<noteq> tok
                          then w\<lparr>pointerIds := pointerIds w AND NOT pids\<rparr>
                          else w)
                    (windows s))\<rparr>)"

definition allPilferedPointerIds :: "('p::len) touched_window list \<Rightarrow> 'p word" where
  "allPilferedPointerIds ws = foldl (\<lambda>acc w. acc OR pilferedPointerIds w) 0 ws"

definition cancelPointersForNonPilferingWindows :: "('p::len) touch_state \<Rightarrow> 'p touch_state" where
  "cancelPointersForNonPilferingWindows s =
     (let allPilfered = allPilferedPointerIds (windows s) in
      if allPilfered = 0 then s
      else s\<lparr>windows :=
             filter (\<lambda>w. \<not> pointerIds w = 0)
               (map (\<lambda>w. let pilferedByOtherWindows = pilferedPointerIds w XOR allPilfered
                          in w\<lparr>pointerIds := pointerIds w AND NOT pilferedByOtherWindows\<rparr>)
                    (windows s))\<rparr>)"

text \<open>The loop of \<^verbatim>\<open>isSlippery\<close> carries \<^verbatim>\<open>haveSlipperyForegroundWindow\<close>.\<close>

fun isSlippery_loop ::
  "flag_values \<Rightarrow> window_store \<Rightarrow> bool \<Rightarrow> ('p::len) touched_window list \<Rightarrow> bool" where
  "isSlippery_loop K info haveSlipperyForegroundWindow [] = haveSlipperyForegroundWindow"
| "isSlippery_loop K info haveSlipperyForegroundWindow (window # rest) =
     (if test (targetFlags window) (FOREGROUND K)
      then (if haveSlipperyForegroundWindow \<or>
               \<not> test (inputConfig (info (windowHandle window))) (SLIPPERY K)
            then False
            else isSlippery_loop K info True rest)
      else isSlippery_loop K info haveSlipperyForegroundWindow rest)"

definition isSlippery :: "flag_values \<Rightarrow> window_store \<Rightarrow> ('p::len) touch_state \<Rightarrow> bool" where
  "isSlippery K info s = isSlippery_loop K info False (windows s)"

text \<open>
  \<^verbatim>\<open>LOG_ALWAYS_FATAL_IF\<close> aborts the process with the formatted message; nothing is
  returned. The abort is the \<open>Inl\<close> branch of the result.
\<close>

datatype fatal = Fatal string

definition getTouchedWindow ::
  "window_store \<Rightarrow> handle \<Rightarrow> ('p::len) touch_state \<Rightarrow> fatal + 'p touched_window" where
  "getTouchedWindow info h s =
     (case find (\<lambda>w. windowHandle w = h) (windows s) of
        None \<Rightarrow> Inl (Fatal (''Could not find '' @ getName (info h)))
      | Some w \<Rightarrow> Inr w)"

definition removeHoveringPointer ::
  "int32_t \<Rightarrow> int32_t \<Rightarrow> ('p::len) touch_state \<Rightarrow> 'p touch_state" where
  "removeHoveringPointer hoveringDeviceId hoveringPointerId s =
     s\<lparr>windows :=
         filter (\<lambda>w. \<not> (pointerIds w = 0 \<and> \<not> hasHoveringPointers w))
           (map (\<lambda>window. removeHoveringPointer_w window hoveringDeviceId hoveringPointerId)
                (windows s))\<rparr>"

subsection \<open>Notions used by the properties\<close>

text \<open>
  The handle and the flags of an entry, which most operations leave alone; and the
  property that no entry includes both \<^verbatim>\<open>DISPATCH_AS_SLIPPERY_EXIT\<close> and
  \<^verbatim>\<open>DISPATCH_AS_IS\<close>.
\<close>

abbreviation handle_flags :: "('p::len) touched_window \<Rightarrow> handle \<times> flags" where
  "handle_flags w \<equiv> (windowHandle w, targetFlags w)"

abbreviation slippery_exit_exclusive :: "flag_values \<Rightarrow> ('p::len) touch_state \<Rightarrow> bool" where
  "slippery_exit_exclusive K s \<equiv>
     list_all (\<lambda>w. \<not> (test (targetFlags w) (DISPATCH_AS_SLIPPERY_EXIT K) \<and>
                       test (targetFlags w) (DISPATCH_AS_IS K))) (windows s)"

subsection \<open>Concrete values\<close>

text \<open>
  One assignment of the flag constants (distinct single bits, the mask covering the
  dispatch modes), a store with three window objects, and touch states over a 32-bit
  pointer set. The closed theorems below evaluate the functions on them.
\<close>

definition flags0 :: flag_values where
  "flags0 = \<lparr> FOREGROUND = 0x1, DISPATCH_AS_IS = 0x100, DISPATCH_AS_SLIPPERY_EXIT = 0x1000,
     DISPATCH_AS_SLIPPERY_ENTER = 0x2000, DISPATCH_MASK = 0x3F00, SLIPPERY = 0x400 \<rparr>"

definition store0 :: window_store where
  "store0 h =
     (if h = 1 then \<lparr> getToken = 10, inputConfig = 0x400, getName = ''A'' \<rparr>
      else if h = 2 then \<lparr> getToken = 20, inputConfig = 0, getName = ''B'' \<rparr>
      else \<lparr> getToken = 30, inputConfig = 0, getName = ''C'' \<rparr>)"

definition two_windows :: "32 touch_state" where
  "two_windows = \<lparr> deviceId = 7, source = 0x1002, windows =
     [\<lparr> windowHandle = 1, targetFlags = 0x101, pointerIds = 6, hoveringPointerIds = {},
        pilferedPointerIds = 0, firstDownTimeInTarget = Some 100 \<rparr>,
      \<lparr> windowHandle = 2, targetFlags = 0x200, pointerIds = 4, hoveringPointerIds = {},
        pilferedPointerIds = 0, firstDownTimeInTarget = None \<rparr>] \<rparr>"

definition pilfer_symmetry :: "32 touch_state" where
  "pilfer_symmetry = \<lparr> deviceId = 7, source = 0x1002, windows =
     [\<lparr> windowHandle = 1, targetFlags = 0x101, pointerIds = 6, hoveringPointerIds = {},
        pilferedPointerIds = 2, firstDownTimeInTarget = Some 100 \<rparr>,
      \<lparr> windowHandle = 2, targetFlags = 0x100, pointerIds = 6, hoveringPointerIds = {},
        pilferedPointerIds = 4, firstDownTimeInTarget = Some 100 \<rparr>] \<rparr>"

definition pilfer_overlap :: "32 touch_state" where
  "pilfer_overlap = \<lparr> deviceId = 7, source = 0x1002, windows =
     [\<lparr> windowHandle = 1, targetFlags = 0x101, pointerIds = 2, hoveringPointerIds = {},
        pilferedPointerIds = 2, firstDownTimeInTarget = Some 100 \<rparr>,
      \<lparr> windowHandle = 2, targetFlags = 0x100, pointerIds = 6, hoveringPointerIds = {},
        pilferedPointerIds = 2, firstDownTimeInTarget = Some 100 \<rparr>,
      \<lparr> windowHandle = 3, targetFlags = 0x100, pointerIds = 6, hoveringPointerIds = {},
        pilferedPointerIds = 0, firstDownTimeInTarget = Some 100 \<rparr>] \<rparr>"

definition pilfer_erased :: "32 touch_state" where
  "pilfer_erased = \<lparr> deviceId = 7, source = 0x1002, windows =
     [\<lparr> windowHandle = 1, targetFlags = 0x101, pointerIds = 6, hoveringPointerIds = {},
        pilferedPointerIds = 2, firstDownTimeInTarget = Some 100 \<rparr>,
      \<lparr> windowHandle = 3, targetFlags = 0x200, pointerIds = 2, hoveringPointerIds = {(5, 0)},
        pilferedPointerIds = 0, firstDownTimeInTarget = None \<rparr>,
      \<lparr> windowHandle = 2, targetFlags = 0x100, pointerIds = 4, hoveringPointerIds = {},
        pilferedPointerIds = 0, firstDownTimeInTarget = Some 100 \<rparr>] \<rparr>"

definition mixed_modes :: "32 touch_state" where
  "mixed_modes = \<lparr> deviceId = 7, source = 0x1002, windows =
     [\<lparr> windowHandle = 1, targetFlags = 0x101, pointerIds = 1, hoveringPointerIds = {},
        pilferedPointerIds = 0, firstDownTimeInTarget = Some 100 \<rparr>,
      \<lparr> windowHandle = 2, targetFlags = 0x200, pointerIds = 1, hoveringPointerIds = {},
        pilferedPointerIds = 0, firstDownTimeInTarget = None \<rparr>,
      \<lparr> windowHandle = 3, targetFlags = 0x2002, pointerIds = 1, hoveringPointerIds = {},
        pilferedPointerIds = 0, firstDownTimeInTarget = None \<rparr>] \<rparr>"

definition hover_and_touch :: "32 touch_state" where
  "hover_and_touch = \<lparr> deviceId = 7, source = 0x1002, windows =
     [\<lparr> windowHandle = 1, targetFlags = 0x101, pointerIds = 6, hoveringPointerIds = {},
        pilferedPointerIds = 0, firstDownTimeInTarget = Some 100 \<rparr>,
      \<lparr> windowHandle = 2, targetFlags = 0x100, pointerIds = 2, hoveringPointerIds = {(5, 0)},
        pilferedPointerIds = 0, firstDownTimeInTarget = Some 100 \<rparr>] \<rparr>"

section \<open>Properties\<close>

subsection \<open>Subsequences and bits\<close>

lemma subseq_distinct: "subseq xs ys \<Longrightarrow> distinct ys \<Longrightarrow> distinct xs"
  using subseqs_distinctD in_set_subseqs by blast

lemma subseq_set: "subseq xs ys \<Longrightarrow> set xs \<subseteq> set ys"
  by (induction rule: list_emb.induct) auto

lemma subseq_erase_at: "subseq (erase_at i xs) xs"
proof (induction xs arbitrary: i)
  case Nil
  show ?case by (simp add: erase_at_def)
next
  case (Cons x xs)
  show ?case
  proof (cases i)
    case 0
    then show ?thesis by (auto simp add: erase_at_def)
  next
    case (Suc j)
    with Cons.IH [of j] show ?thesis by (simp add: erase_at_def)
  qed
qed

lemma subseq_filter_map_frame:
  assumes "\<And>w. g (f w) = g w"
  shows "subseq (map g (filter P (map f ws))) (map g ws)"
proof -
  have "map g (filter P (map f ws)) = map g (filter (P \<circ> f) ws)"
    by (simp add: filter_map assms)
  then show ?thesis by (simp add: subseq_map)
qed

lemma unset_bit_absent:
  fixes a :: "'a::len word"
  shows "\<not> bit a n \<Longrightarrow> unset_bit n a = a"
  by (rule bit_eqI) (auto simp add: bit_unset_bit_iff)

text \<open>
  \<open>test\<close> and \<open>any\<close> under \<open>OR\<close>, after a clear, and after the mode bits have
  been replaced.
\<close>

lemma any_or: "any m (a OR b) \<longleftrightarrow> test m a \<or> test m b"
  by (simp add: any_def test_def bit.conj_disj_distrib or_eq_0_iff)

lemma test_or: "test (a OR b) f \<longleftrightarrow> test a f \<or> test b f"
  by (simp add: test_def bit.conj_disj_distrib2 or_eq_0_iff)

lemma test_and_not_self: "\<not> test (a AND NOT f) f"
  by (simp add: test_def and.assoc)

lemma test_zero: "\<not> test 0 f"
  by (simp add: test_def)

lemma mode_bits_replaced:
  fixes f :: flags
  assumes "A AND M = A"
  shows "((f AND NOT M) OR A) AND M = A"
proof (rule bit_eqI)
  fix n
  from assms have "bit (A AND M) n = bit A n" by simp
  then show "bit (((f AND NOT M) OR A) AND M) n = bit A n"
    by (auto simp: bit_and_iff bit_or_iff bit_not_iff)
qed

lemma other_bits_kept:
  fixes f :: flags
  assumes "A AND M = A"
  shows "((f AND NOT M) OR A) AND NOT M = f AND NOT M"
proof (rule bit_eqI)
  fix n
  from assms have "bit (A AND M) n = bit A n" by simp
  then show "bit (((f AND NOT M) OR A) AND NOT M) n = bit (f AND NOT M) n"
    by (auto simp: bit_and_iff bit_or_iff bit_not_iff)
qed

lemma test_mode_replaced:
  fixes f :: flags
  assumes "E AND NOT M = 0" and "E AND A = 0"
  shows "\<not> test ((f AND NOT M) OR A) E"
proof -
  have "((f AND NOT M) OR A) AND E = 0"
  proof (rule bit_eqI)
    fix n
    from assms(1) have "bit (E AND NOT M) n = False" by simp
    moreover from assms(2) have "bit (E AND A) n = False" by simp
    ultimately show "bit (((f AND NOT M) OR A) AND E) n = bit (0 :: flags) n"
      by (auto simp: bit_and_iff bit_or_iff bit_not_iff)
  qed
  then show ?thesis by (simp add: test_def)
qed

lemma test_slippery_exit_kept:
  fixes e :: flags
  assumes "test tf E" and "E AND A = 0"
  shows "test ((e OR tf) AND NOT A) E"
proof -
  from assms(1) obtain n where n: "bit (tf AND E) n"
    by (auto simp: test_def bit_eq_iff)
  from assms(2) have "bit (E AND A) n = False" by simp
  with n have "bit (((e OR tf) AND NOT A) AND E) n"
    by (auto simp: bit_and_iff bit_or_iff bit_not_iff dest: bit_imp_possible_bit)
  then have "((e OR tf) AND NOT A) AND E \<noteq> 0"
    by auto
  then show ?thesis by (simp add: test_def)
qed

subsection \<open>The loops\<close>

text \<open>
  The upsert loop updates the first entry with the handle and appends when there is
  none; it never clears a pointer bit.
\<close>

lemma addOrUpdateWindow_loop_found:
  assumes "h \<notin> set (map windowHandle pre)" and "windowHandle w = h"
  shows "addOrUpdateWindow_loop K h tf pids fdt (pre @ w # post) =
         pre @ w\<lparr>targetFlags := (if test tf (DISPATCH_AS_SLIPPERY_EXIT K)
                                  then (targetFlags w OR tf) AND NOT (DISPATCH_AS_IS K)
                                  else targetFlags w OR tf),
                  pointerIds := pointerIds w OR pids,
                  firstDownTimeInTarget := (case firstDownTimeInTarget w of
                                              None \<Rightarrow> fdt | Some t \<Rightarrow> Some t)\<rparr> # post"
  using assms by (induction pre) (auto simp: Let_def clear_def split: option.splits)

lemma addOrUpdateWindow_loop_absent:
  assumes "h \<notin> set (map windowHandle ws)"
  shows "addOrUpdateWindow_loop K h tf pids fdt ws =
         ws @ [\<lparr> windowHandle = h, targetFlags = tf, pointerIds = pids,
                 hoveringPointerIds = {}, pilferedPointerIds = 0,
                 firstDownTimeInTarget = fdt \<rparr>]"
  using assms by (induction ws) (auto simp: TouchedWindow_def)

lemma addOrUpdateWindow_loop_handles:
  "map windowHandle (addOrUpdateWindow_loop K h tf pids fdt ws) =
     (if h \<in> set (map windowHandle ws) then map windowHandle ws else map windowHandle ws @ [h])"
  by (induction ws) (auto simp: Let_def TouchedWindow_def)

lemma addOrUpdateWindow_loop_keeps_bits:
  "i < length ws \<Longrightarrow> bit (pointerIds (ws ! i)) n \<Longrightarrow>
   bit (pointerIds (addOrUpdateWindow_loop K h tf pids fdt ws ! i)) n"
  by (induction ws arbitrary: i) (auto simp: Let_def nth_Cons bit_or_iff split: nat.splits)

lemma addHoveringPointerToWindow_loop_handles:
  "map windowHandle (addHoveringPointerToWindow_loop h d pid ws) =
     (if h \<in> set (map windowHandle ws) then map windowHandle ws else map windowHandle ws @ [h])"
  by (induction ws) (auto simp: addHoveringPointer_def TouchedWindow_def)

lemma addHoveringPointerToWindow_loop_flags:
  "map targetFlags (addHoveringPointerToWindow_loop h d pid ws) =
     (if h \<in> set (map windowHandle ws) then map targetFlags ws else map targetFlags ws @ [0])"
  by (induction ws) (auto simp: addHoveringPointer_def TouchedWindow_def)

lemma find_first:
  "(\<forall>v\<in>set pre. \<not> P v) \<Longrightarrow> P w \<Longrightarrow> find P (pre @ w # post) = Some w"
  by (induction pre) auto

text \<open>
  The index loop of \<^verbatim>\<open>filterNonAsIsTouchWindows\<close>, started at \<open>i\<close>, keeps the first
  \<open>i\<close> entries as they are and replaces the rest by its kept entries, each with the
  mode bits set to \<^verbatim>\<open>DISPATCH_AS_IS\<close>. The loop of \<^verbatim>\<open>removeWindowByToken\<close> erases at
  most one entry.
\<close>

lemma filterNonAsIsTouchWindows_loop_eq:
  "i \<le> length ws \<Longrightarrow>
   filterNonAsIsTouchWindows_loop K i ws =
     take i ws @
     map (\<lambda>w. w\<lparr>targetFlags := (targetFlags w AND NOT (DISPATCH_MASK K)) OR DISPATCH_AS_IS K\<rparr>)
       (filter (\<lambda>w. test (targetFlags w) (DISPATCH_AS_IS K) \<or>
                    test (targetFlags w) (DISPATCH_AS_SLIPPERY_ENTER K))
          (drop i ws))"
proof (induction K i ws rule: filterNonAsIsTouchWindows_loop.induct)
  case (1 K i ws)
  show ?case
  proof (cases "i < length ws")
    case False
    with "1.prems" show ?thesis by (subst filterNonAsIsTouchWindows_loop.simps) simp
  next
    case lt: True
    have dr: "drop i ws = ws ! i # drop (Suc i) ws"
      using lt by (simp add: Cons_nth_drop_Suc)
    show ?thesis
    proof (cases "any (targetFlags (ws ! i)) (DISPATCH_AS_IS K OR DISPATCH_AS_SLIPPERY_ENTER K)")
      case True
      have "filterNonAsIsTouchWindows_loop K i ws =
            filterNonAsIsTouchWindows_loop K (i + 1)
              (ws[i := (ws ! i)\<lparr>targetFlags := clear (targetFlags (ws ! i)) (DISPATCH_MASK K)
                                              OR DISPATCH_AS_IS K\<rparr>])"
        using lt True by (subst filterNonAsIsTouchWindows_loop.simps) (simp add: Let_def)
      also have "\<dots> = take (i + 1) (ws[i := (ws ! i)\<lparr>targetFlags := clear (targetFlags (ws ! i)) (DISPATCH_MASK K)
                                              OR DISPATCH_AS_IS K\<rparr>]) @
         map (\<lambda>w. w\<lparr>targetFlags := (targetFlags w AND NOT (DISPATCH_MASK K)) OR DISPATCH_AS_IS K\<rparr>)
       (filter (\<lambda>w. test (targetFlags w) (DISPATCH_AS_IS K) \<or>
                    test (targetFlags w) (DISPATCH_AS_SLIPPERY_ENTER K))
          (drop (i + 1) (ws[i := (ws ! i)\<lparr>targetFlags := clear (targetFlags (ws ! i)) (DISPATCH_MASK K)
                                              OR DISPATCH_AS_IS K\<rparr>])))"
        using lt True by (intro "1.IH"(1)) simp_all
      also have "\<dots> = take i ws @
     map (\<lambda>w. w\<lparr>targetFlags := (targetFlags w AND NOT (DISPATCH_MASK K)) OR DISPATCH_AS_IS K\<rparr>)
       (filter (\<lambda>w. test (targetFlags w) (DISPATCH_AS_IS K) \<or>
                    test (targetFlags w) (DISPATCH_AS_SLIPPERY_ENTER K))
          (drop i ws))"
        using lt True by (simp add: dr take_Suc_conv_app_nth any_or clear_def)
      finally show ?thesis .
    next
      case False
      have "filterNonAsIsTouchWindows_loop K i ws = filterNonAsIsTouchWindows_loop K i (erase_at i ws)"
        using lt False by (subst filterNonAsIsTouchWindows_loop.simps) (simp add: Let_def)
      also have "\<dots> = take i (erase_at i ws) @
     map (\<lambda>w. w\<lparr>targetFlags := (targetFlags w AND NOT (DISPATCH_MASK K)) OR DISPATCH_AS_IS K\<rparr>)
       (filter (\<lambda>w. test (targetFlags w) (DISPATCH_AS_IS K) \<or>
                    test (targetFlags w) (DISPATCH_AS_SLIPPERY_ENTER K))
          (drop i (erase_at i ws)))"
        using lt False by (intro "1.IH"(2)) (simp_all add: erase_at_def)
      also have "\<dots> = take i ws @
     map (\<lambda>w. w\<lparr>targetFlags := (targetFlags w AND NOT (DISPATCH_MASK K)) OR DISPATCH_AS_IS K\<rparr>)
       (filter (\<lambda>w. test (targetFlags w) (DISPATCH_AS_IS K) \<or>
                    test (targetFlags w) (DISPATCH_AS_SLIPPERY_ENTER K))
          (drop i ws))"
        using lt False by (simp add: dr erase_at_def any_or min_def)
      finally show ?thesis .
    qed
  qed
qed

lemma removeWindowByToken_loop_subseq:
  "subseq (removeWindowByToken_loop info tok i ws) ws"
proof (induction info tok i ws rule: removeWindowByToken_loop.induct)
  case (1 info tok i ws)
  show ?case
  proof (cases "i < length ws \<and> getToken (info (windowHandle (ws ! i))) \<noteq> tok")
    case True
    with "1.IH" show ?thesis by (subst removeWindowByToken_loop.simps) simp
  next
    case False
    then show ?thesis by (subst removeWindowByToken_loop.simps) (auto simp: subseq_erase_at)
  qed
qed

text \<open>
  The loop invariant: once a slippery foreground window has been seen, the rest of the
  list must hold no foreground window; before that, it must hold exactly one, and a
  slippery one.
\<close>

lemma isSlippery_loop_eq:
  "isSlippery_loop K info have ws \<longleftrightarrow>
     (if have then filter (\<lambda>w. test (targetFlags w) (FOREGROUND K)) ws = []
      else (\<exists>w. filter (\<lambda>w. test (targetFlags w) (FOREGROUND K)) ws = [w]
                \<and> test (inputConfig (info (windowHandle w))) (SLIPPERY K)))"
proof (induction ws arbitrary: "have")
  case Nil
  show ?case by simp
next
  case (Cons w ws)
  show ?case by (simp add: Cons.IH)
qed

text \<open>
  The union of the pilfered sets holds a pointer exactly when some entry pilfers it.
\<close>

lemma bit_foldl_or:
  fixes a :: "'p::len word"
  shows "bit (foldl (\<lambda>acc w. acc OR pilferedPointerIds w) a ws) n \<longleftrightarrow>
         bit a n \<or> (\<exists>w\<in>set ws. bit (pilferedPointerIds w) n)"
  by (induction ws arbitrary: a) (auto simp: bit_or_iff)

lemma bit_allPilferedPointerIds:
  "bit (allPilferedPointerIds ws) n \<longleftrightarrow> (\<exists>w\<in>set ws. bit (pilferedPointerIds w) n)"
  by (simp add: allPilferedPointerIds_def bit_foldl_or)

text \<open>
  \<^verbatim>\<open>removeTouchingPointer\<close> is idempotent and does nothing for a pointer that the
  entry does not touch.
\<close>

lemma removeTouchingPointer_idem:
  "removeTouchingPointer (removeTouchingPointer w pid) pid = removeTouchingPointer w pid"
  by (simp add: removeTouchingPointer_def bit_eq_iff bit_unset_bit_iff)

lemma removeTouchingPointer_absent:
  "\<not> (0 \<le> sint pid \<and> bit (pointerIds w) (nat (sint pid))) \<Longrightarrow> removeTouchingPointer w pid = w"
  by (auto simp add: removeTouchingPointer_def unset_bit_absent)

subsection \<open>Handles and flags under the operations\<close>

text \<open>
  Eight operations leave the handle and the flags of every entry alone and at most
  erase entries: the pairs of the result are a subsequence of the pairs before. Unique
  handles and every property of the flags of all entries carry over.
\<close>

lemma subseq_handles_distinct:
  assumes "subseq (map handle_flags ws') (map handle_flags ws)"
    and "distinct (map windowHandle ws)"
  shows "distinct (map windowHandle ws')"
proof -
  from assms(1) have "subseq (map fst (map handle_flags ws')) (map fst (map handle_flags ws))"
    by (rule subseq_map)
  then have "subseq (map windowHandle ws') (map windowHandle ws)"
    by (simp add: comp_def)
  then show ?thesis using assms(2) by (rule subseq_distinct)
qed

lemma subseq_flags_list_all:
  assumes "subseq (map handle_flags ws') (map handle_flags ws)"
    and "list_all (\<lambda>w. P (targetFlags w)) ws"
  shows "list_all (\<lambda>w. P (targetFlags w)) ws'"
proof -
  from assms(1) have "set (map handle_flags ws') \<subseteq> set (map handle_flags ws)"
    by (rule subseq_set)
  then have "targetFlags ` set ws' \<subseteq> targetFlags ` set ws"
    by (auto simp: image_iff)
  with assms(2) show ?thesis
    by (auto simp: list_all_iff)
qed

lemma removeTouchingPointer_handle_flags [simp]:
  "handle_flags (removeTouchingPointer w pid) = handle_flags w"
  by (simp add: removeTouchingPointer_def)

lemma removeTouchedPointer_handle_flags:
  "map handle_flags (windows (removeTouchedPointer pid s)) = map handle_flags (windows s)"
  by (simp add: removeTouchedPointer_def comp_def)

lemma removeTouchedPointerFromWindow_loop_handle_flags:
  "map handle_flags (removeTouchedPointerFromWindow_loop pid h ws) = map handle_flags ws"
  by (induction ws) simp_all

lemma removeTouchedPointerFromWindow_handle_flags:
  "map handle_flags (windows (removeTouchedPointerFromWindow pid h s)) = map handle_flags (windows s)"
  by (simp add: removeTouchedPointerFromWindow_def removeTouchedPointerFromWindow_loop_handle_flags)

lemma clearHoveringPointers_handle_flags:
  "map handle_flags (windows (clearHoveringPointers s)) = map handle_flags (windows s)"
  by (simp add: clearHoveringPointers_def clearHoveringPointers_w_def comp_def)

lemma clearWindowsWithoutPointers_handle_flags:
  "subseq (map handle_flags (windows (clearWindowsWithoutPointers s))) (map handle_flags (windows s))"
  by (simp add: clearWindowsWithoutPointers_def subseq_map)

lemma removeWindowByToken_handle_flags:
  "subseq (map handle_flags (windows (removeWindowByToken info tok s))) (map handle_flags (windows s))"
  by (simp add: removeWindowByToken_def subseq_map removeWindowByToken_loop_subseq)

lemma cancelPointersForWindowsExcept_handle_flags:
  "subseq (map handle_flags (windows (cancelPointersForWindowsExcept info pids tok s)))
          (map handle_flags (windows s))"
  by (simp add: cancelPointersForWindowsExcept_def subseq_filter_map_frame)

lemma cancelPointersForNonPilferingWindows_handle_flags:
  "subseq (map handle_flags (windows (cancelPointersForNonPilferingWindows s)))
          (map handle_flags (windows s))"
  by (simp add: cancelPointersForNonPilferingWindows_def Let_def subseq_filter_map_frame)

lemma removeHoveringPointer_handle_flags:
  "subseq (map handle_flags (windows (removeHoveringPointer d pid s))) (map handle_flags (windows s))"
  by (simp add: removeHoveringPointer_def removeHoveringPointer_w_def subseq_filter_map_frame)

lemma filterNonAsIsTouchWindows_handles:
  "subseq (map windowHandle (windows (filterNonAsIsTouchWindows K s))) (map windowHandle (windows s))"
proof -
  have "map windowHandle (windows (filterNonAsIsTouchWindows K s)) =
        map windowHandle (filter (\<lambda>w. test (targetFlags w) (DISPATCH_AS_IS K) \<or>
                    test (targetFlags w) (DISPATCH_AS_SLIPPERY_ENTER K)) (windows s))"
    by (simp add: filterNonAsIsTouchWindows_def filterNonAsIsTouchWindows_loop_eq comp_def)
  then show ?thesis by (simp add: subseq_map)
qed

lemma filterNonAsIsTouchWindows_exclusive:
  assumes "DISPATCH_AS_SLIPPERY_EXIT K AND NOT (DISPATCH_MASK K) = 0"
    and "DISPATCH_AS_SLIPPERY_EXIT K AND DISPATCH_AS_IS K = 0"
  shows "slippery_exit_exclusive K (filterNonAsIsTouchWindows K s)"
  by (simp add: filterNonAsIsTouchWindows_def filterNonAsIsTouchWindows_loop_eq list_all_iff
        test_mode_replaced [OF assms])

lemma addHoveringPointerToWindow_exclusive:
  assumes "slippery_exit_exclusive K s"
  shows "slippery_exit_exclusive K (addHoveringPointerToWindow h d pid s)"
proof -
  have "list_all (\<lambda>f. \<not> (test f (DISPATCH_AS_SLIPPERY_EXIT K) \<and> test f (DISPATCH_AS_IS K)))
          (map targetFlags (windows (addHoveringPointerToWindow h d pid s)))"
    using assms
    by (simp add: addHoveringPointerToWindow_def addHoveringPointerToWindow_loop_flags
          list_all_iff test_zero)
  then show ?thesis by (simp add: list_all_iff)
qed

text \<open>
  \<^verbatim>\<open>addOrUpdateWindow\<close> and the exclusion of the two flags, exactly: an update breaks
  it only by adding \<^verbatim>\<open>DISPATCH_AS_IS\<close>, without \<^verbatim>\<open>DISPATCH_AS_SLIPPERY_EXIT\<close>,
  to an entry that includes \<^verbatim>\<open>DISPATCH_AS_SLIPPERY_EXIT\<close>; an insert breaks it only
  with flags that include both.
\<close>

lemma addOrUpdateWindow_update_exclusive_iff:
  assumes inv: "slippery_exit_exclusive K s"
    and ws: "windows s = pre @ w # post" and h: "windowHandle w = h"
    and pre: "h \<notin> set (map windowHandle pre)"
  shows "slippery_exit_exclusive K (addOrUpdateWindow K h tf pids fdt s) \<longleftrightarrow>
         \<not> (test tf (DISPATCH_AS_IS K) \<and> \<not> test tf (DISPATCH_AS_SLIPPERY_EXIT K) \<and>
            test (targetFlags w) (DISPATCH_AS_SLIPPERY_EXIT K))"
proof -
  have "windows (addOrUpdateWindow K h tf pids fdt s) =
         pre @ w\<lparr>targetFlags := (if test tf (DISPATCH_AS_SLIPPERY_EXIT K)
                                  then (targetFlags w OR tf) AND NOT (DISPATCH_AS_IS K)
                                  else targetFlags w OR tf),
                  pointerIds := pointerIds w OR pids,
                  firstDownTimeInTarget := (case firstDownTimeInTarget w of
                                              None \<Rightarrow> fdt | Some t \<Rightarrow> Some t)\<rparr> # post"
    using ws h pre by (simp add: addOrUpdateWindow_def addOrUpdateWindow_loop_found)
  moreover from inv ws
  have "list_all (\<lambda>w. \<not> (test (targetFlags w) (DISPATCH_AS_SLIPPERY_EXIT K) \<and>
                           test (targetFlags w) (DISPATCH_AS_IS K))) pre"
    and "list_all (\<lambda>w. \<not> (test (targetFlags w) (DISPATCH_AS_SLIPPERY_EXIT K) \<and>
                           test (targetFlags w) (DISPATCH_AS_IS K))) post"
    and "\<not> (test (targetFlags w) (DISPATCH_AS_SLIPPERY_EXIT K) \<and>
            test (targetFlags w) (DISPATCH_AS_IS K))"
    by simp_all
  ultimately show ?thesis
    by (auto simp: test_or test_and_not_self)
qed

lemma addOrUpdateWindow_insert_exclusive_iff:
  assumes inv: "slippery_exit_exclusive K s"
    and absent: "h \<notin> set (map windowHandle (windows s))"
  shows "slippery_exit_exclusive K (addOrUpdateWindow K h tf pids fdt s) \<longleftrightarrow>
         \<not> (test tf (DISPATCH_AS_SLIPPERY_EXIT K) \<and> test tf (DISPATCH_AS_IS K))"
proof -
  from absent have "windows (addOrUpdateWindow K h tf pids fdt s) =
         windows s @ [\<lparr> windowHandle = h, targetFlags = tf, pointerIds = pids,
                 hoveringPointerIds = {}, pilferedPointerIds = 0,
                 firstDownTimeInTarget = fdt \<rparr>]"
    by (simp add: addOrUpdateWindow_def addOrUpdateWindow_loop_absent)
  with inv show ?thesis by simp
qed

subsection \<open>\<^verbatim>\<open>addOrUpdateWindow\<close>\<close>

text \<open>
  Claim C1, amended. When an entry with the handle exists, \<^verbatim>\<open>addOrUpdateWindow\<close>
  changes the first such entry and nothing else: its flags become the bitwise OR of the
  old and the new flags, with \<^verbatim>\<open>DISPATCH_AS_IS\<close> then cleared when the new flags
  include \<^verbatim>\<open>DISPATCH_AS_SLIPPERY_EXIT\<close>; its touching set becomes the OR of the old set
  and the new one; its first down time is set to the argument only if it was absent.
  When no entry has the handle, an entry with exactly the given handle, flags, touching
  set and first down time (and no hovering or pilfered pointers) is appended at the end.
  In both cases no pointer bit of any entry is removed.
\<close>

theorem addOrUpdateWindow_spec:
  "(windows s = pre @ w # post \<and> windowHandle w = h \<and> h \<notin> set (map windowHandle pre) \<longrightarrow>
      addOrUpdateWindow K h tf pids fdt s =
        s\<lparr>windows := pre @
            w\<lparr>targetFlags := (if test tf (DISPATCH_AS_SLIPPERY_EXIT K)
                               then (targetFlags w OR tf) AND NOT (DISPATCH_AS_IS K)
                               else targetFlags w OR tf),
              pointerIds := pointerIds w OR pids,
              firstDownTimeInTarget := (case firstDownTimeInTarget w of
                                          None \<Rightarrow> fdt | Some t \<Rightarrow> Some t)\<rparr> # post\<rparr>)
   \<and> (h \<notin> set (map windowHandle (windows s)) \<longrightarrow>
      addOrUpdateWindow K h tf pids fdt s =
        s\<lparr>windows := windows s @
            [\<lparr> windowHandle = h, targetFlags = tf, pointerIds = pids,
               hoveringPointerIds = {}, pilferedPointerIds = 0,
               firstDownTimeInTarget = fdt \<rparr>]\<rparr>)
   \<and> (\<forall>i<length (windows s). \<forall>n.
         bit (pointerIds (windows s ! i)) n \<longrightarrow>
         bit (pointerIds (windows (addOrUpdateWindow K h tf pids fdt s) ! i)) n)"
  by (simp add: addOrUpdateWindow_def addOrUpdateWindow_loop_found addOrUpdateWindow_loop_absent
        addOrUpdateWindow_loop_keeps_bits)

text \<open>
  On \<open>two_windows\<close>: window 2 has no first down time and adopts the given one, its
  flags and touching set are OR-ed; window 3 is new and appended. Adding window 3 twice
  (flags \<open>0x100\<close>, pointers \<open>{1}\<close>, time 1; then flags \<open>0x8\<close>, pointers \<open>{2}\<close>,
  time 2) keeps time 1 and gives flags \<open>0x108\<close> and pointers \<open>{1, 2}\<close>.
\<close>

theorem addOrUpdateWindow_spec_witness:
  "windows two_windows = [windows two_windows ! 0] @ (windows two_windows ! 1) # []
   \<and> windowHandle (windows two_windows ! 1) = 2
   \<and> 2 \<notin> set (map windowHandle [windows two_windows ! 0])
   \<and> windows (addOrUpdateWindow flags0 2 0x1 2 (Some 5) two_windows) =
       [windows two_windows ! 0,
        \<lparr> windowHandle = 2, targetFlags = 0x201, pointerIds = 6, hoveringPointerIds = {},
          pilferedPointerIds = 0, firstDownTimeInTarget = Some 5 \<rparr>]
   \<and> 3 \<notin> set (map windowHandle (windows two_windows))
   \<and> windows (addOrUpdateWindow flags0 3 0x100 2 (Some 1) two_windows) =
       windows two_windows @
       [\<lparr> windowHandle = 3, targetFlags = 0x100, pointerIds = 2, hoveringPointerIds = {},
          pilferedPointerIds = 0, firstDownTimeInTarget = Some 1 \<rparr>]
   \<and> windows (addOrUpdateWindow flags0 3 0x8 4 (Some 2)
         (addOrUpdateWindow flags0 3 0x100 2 (Some 1) two_windows)) ! 2 =
       \<lparr> windowHandle = 3, targetFlags = 0x108, pointerIds = 6, hoveringPointerIds = {},
          pilferedPointerIds = 0, firstDownTimeInTarget = Some 1 \<rparr>"
  using addOrUpdateWindow_spec [of two_windows "[windows two_windows ! 0]" "windows two_windows ! 1"
          "[]" 2 flags0 "0x1" 2 "Some 5"]
    addOrUpdateWindow_spec [of two_windows "[]" "windows two_windows ! 0" "[]" 3 flags0 "0x100" 2 "Some 1"]
  by (simp add: two_windows_def flags0_def test_def addOrUpdateWindow_def clear_def
        TouchedWindow_def)

text \<open>
  Claim C1 as stated fails for the flags: window 1 of \<open>two_windows\<close> has
  \<^verbatim>\<open>FOREGROUND | DISPATCH_AS_IS\<close>; updated with \<^verbatim>\<open>DISPATCH_AS_SLIPPERY_EXIT\<close> its
  flags are \<open>0x1001\<close>, not the OR \<open>0x1101\<close>.
\<close>

theorem addOrUpdateWindow_flags_not_plain_or:
  "windowHandle (windows two_windows ! 0) = 1
   \<and> targetFlags (windows two_windows ! 0) OR 0x1000 = 0x1101
   \<and> windowHandle (windows (addOrUpdateWindow flags0 1 0x1000 0 None two_windows) ! 0) = 1
   \<and> targetFlags (windows (addOrUpdateWindow flags0 1 0x1000 0 None two_windows) ! 0) = 0x1001"
  by (simp add: two_windows_def flags0_def test_def addOrUpdateWindow_def clear_def)

subsection \<open>\<^verbatim>\<open>cancelPointersForNonPilferingWindows\<close>: what it removes\<close>

text \<open>
  Claim C2, amended. \<^verbatim>\<open>cancelPointersForNonPilferingWindows()\<close> changes nothing when
  the union of all pilfered sets is empty. Otherwise every entry's touching set loses the
  bits of \<open>pilfered XOR union\<close>, and the entries left with an empty touching set are
  erased. The union holds a pointer exactly when some entry pilfers it, and a pointer
  stays in an entry's touching set exactly when the entry touched it and either pilfers
  it itself or no entry pilfers it. So a pointer pilfered by two or more entries is
  removed from none of the entries that pilfer it, and is removed from every entry that
  does not.
\<close>

theorem cancelPointersForNonPilferingWindows_spec:
  "(allPilferedPointerIds (windows s) = 0 \<longrightarrow> cancelPointersForNonPilferingWindows s = s)
   \<and> (allPilferedPointerIds (windows s) \<noteq> 0 \<longrightarrow>
        cancelPointersForNonPilferingWindows s =
          s\<lparr>windows := filter (\<lambda>w. pointerIds w \<noteq> 0)
             (map (\<lambda>w. w\<lparr>pointerIds := pointerIds w AND
                     NOT (pilferedPointerIds w XOR allPilferedPointerIds (windows s))\<rparr>)
                  (windows s))\<rparr>)
   \<and> (\<forall>n. bit (allPilferedPointerIds (windows s)) n \<longleftrightarrow>
            (\<exists>w\<in>set (windows s). bit (pilferedPointerIds w) n))
   \<and> (\<forall>w\<in>set (windows s). \<forall>n.
          bit (pointerIds w AND NOT (pilferedPointerIds w XOR allPilferedPointerIds (windows s))) n
          \<longleftrightarrow> bit (pointerIds w) n \<and>
               (bit (pilferedPointerIds w) n \<or> \<not> (\<exists>v\<in>set (windows s). bit (pilferedPointerIds v) n)))"
proof (intro conjI)
  show "allPilferedPointerIds (windows s) = 0 \<longrightarrow> cancelPointersForNonPilferingWindows s = s"
    by (simp add: cancelPointersForNonPilferingWindows_def)
  show "allPilferedPointerIds (windows s) \<noteq> 0 \<longrightarrow>
        cancelPointersForNonPilferingWindows s =
          s\<lparr>windows := filter (\<lambda>w. pointerIds w \<noteq> 0)
             (map (\<lambda>w. w\<lparr>pointerIds := pointerIds w AND
                     NOT (pilferedPointerIds w XOR allPilferedPointerIds (windows s))\<rparr>)
                  (windows s))\<rparr>"
    by (simp add: cancelPointersForNonPilferingWindows_def Let_def)
  show "\<forall>n. bit (allPilferedPointerIds (windows s)) n \<longleftrightarrow>
            (\<exists>w\<in>set (windows s). bit (pilferedPointerIds w) n)"
    by (simp add: bit_allPilferedPointerIds)
  show "\<forall>w\<in>set (windows s). \<forall>n.
          bit (pointerIds w AND NOT (pilferedPointerIds w XOR allPilferedPointerIds (windows s))) n
          \<longleftrightarrow> bit (pointerIds w) n \<and>
               (bit (pilferedPointerIds w) n \<or> \<not> (\<exists>v\<in>set (windows s). bit (pilferedPointerIds v) n))"
  proof (intro ballI allI)
    fix w n
    assume w: "w \<in> set (windows s)"
    have all: "bit (allPilferedPointerIds (windows s)) n \<longleftrightarrow>
            (\<exists>v\<in>set (windows s). bit (pilferedPointerIds v) n)"
      by (simp add: bit_allPilferedPointerIds)
    show "bit (pointerIds w AND NOT (pilferedPointerIds w XOR allPilferedPointerIds (windows s))) n
          \<longleftrightarrow> bit (pointerIds w) n \<and>
               (bit (pilferedPointerIds w) n \<or> \<not> (\<exists>v\<in>set (windows s). bit (pilferedPointerIds v) n))"
      using w by (auto simp: bit_and_iff bit_not_iff bit_xor_iff all dest: bit_imp_possible_bit)
  qed
qed

text \<open>
  The examples of the claim. Window A pilfers \<open>{1}\<close>, B pilfers \<open>{2}\<close>, both touch
  \<open>{1, 2}\<close>: afterwards A touches \<open>{1}\<close> and B touches \<open>{2}\<close>. Without pilfering
  the state is unchanged. With pointer 1 pilfered by two windows, both keep it.
\<close>

theorem cancelPointersForNonPilferingWindows_spec_witness:
  "allPilferedPointerIds (windows pilfer_symmetry) = 6
   \<and> map pointerIds (windows pilfer_symmetry) = [6, 6]
   \<and> map pointerIds (windows (cancelPointersForNonPilferingWindows pilfer_symmetry)) = [2, 4]
   \<and> allPilferedPointerIds (windows two_windows) = 0
   \<and> cancelPointersForNonPilferingWindows two_windows = two_windows
   \<and> map pilferedPointerIds (windows pilfer_overlap) = [2, 2, 0]
   \<and> map pointerIds (windows pilfer_overlap) = [2, 6, 6]
   \<and> map pointerIds (windows (cancelPointersForNonPilferingWindows pilfer_overlap)) = [2, 6, 4]"
  using cancelPointersForNonPilferingWindows_spec [of pilfer_symmetry]
    cancelPointersForNonPilferingWindows_spec [of two_windows]
    cancelPointersForNonPilferingWindows_spec [of pilfer_overlap]
  by (simp add: pilfer_symmetry_def pilfer_overlap_def two_windows_def
        cancelPointersForNonPilferingWindows_def allPilferedPointerIds_def)

text \<open>
  Claim C2 as stated fails in its last part: in \<open>pilfer_overlap\<close> pointer 1 is pilfered
  by the first two windows, and the third window, which touches it without pilfering it,
  loses it.
\<close>

theorem pilfered_twice_removed_from_third:
  "bit (pilferedPointerIds (windows pilfer_overlap ! 0)) 1
   \<and> bit (pilferedPointerIds (windows pilfer_overlap ! 1)) 1
   \<and> windowHandle (windows pilfer_overlap ! 2) = 3
   \<and> bit (pointerIds (windows pilfer_overlap ! 2)) 1
   \<and> windowHandle (windows (cancelPointersForNonPilferingWindows pilfer_overlap) ! 2) = 3
   \<and> \<not> bit (pointerIds (windows (cancelPointersForNonPilferingWindows pilfer_overlap) ! 2)) 1"
  by (simp add: pilfer_overlap_def cancelPointersForNonPilferingWindows_def allPilferedPointerIds_def)

subsection \<open>\<^verbatim>\<open>cancelPointersForWindowsExcept\<close>\<close>

text \<open>
  Claim C3 does not hold of the code. \<^verbatim>\<open>cancelPointersForWindowsExcept\<close> erases the
  entries with \<^verbatim>\<open>pointerIds.none()\<close>, without the test for hovering pointers that
  \<^verbatim>\<open>clearWindowsWithoutPointers\<close> and \<^verbatim>\<open>removeHoveringPointer\<close> make. In
  \<open>hover_and_touch\<close> the second window (token 20) touches pointer 1 and has a hovering
  pointer. Cancelling pointers \<open>{1, 2}\<close> for all windows except token 10 empties its
  touching set, and the entry is erased although its hovering set is not empty;
  \<^verbatim>\<open>clearWindowsWithoutPointers\<close> after the same clearing keeps it.
\<close>

theorem cancelPointersForWindowsExcept_drops_hovering_window:
  "getToken (store0 (windowHandle (windows hover_and_touch ! 1))) \<noteq> 10
   \<and> pointerIds (windows hover_and_touch ! 1) = 2
   \<and> hasHoveringPointers (windows hover_and_touch ! 1)
   \<and> windows (cancelPointersForWindowsExcept store0 6 10 hover_and_touch)
       = [windows hover_and_touch ! 0]
   \<and> map windowHandle (windows (clearWindowsWithoutPointers
         (hover_and_touch\<lparr>windows := map (\<lambda>w. if getToken (store0 (windowHandle w)) \<noteq> 10
                          then w\<lparr>pointerIds := pointerIds w AND NOT 6\<rparr>
                          else w) (windows hover_and_touch)\<rparr>))) = [1, 2]"
  by (simp add: hover_and_touch_def cancelPointersForWindowsExcept_def store0_def
        hasHoveringPointers_def clearWindowsWithoutPointers_def)

subsection \<open>\<^verbatim>\<open>DISPATCH_AS_SLIPPERY_EXIT\<close> and \<^verbatim>\<open>DISPATCH_AS_IS\<close>\<close>

text \<open>
  Claim C4, amended. An entry that \<^verbatim>\<open>addOrUpdateWindow\<close> updates with flags that
  include \<^verbatim>\<open>DISPATCH_AS_SLIPPERY_EXIT\<close> has \<^verbatim>\<open>DISPATCH_AS_IS\<close> absent afterwards
  (and \<^verbatim>\<open>DISPATCH_AS_SLIPPERY_EXIT\<close> present, the two being disjoint bits). An entry
  that it inserts has exactly the given flags. If no entry includes both flags before a
  call, none does after \<^verbatim>\<open>reset\<close>, \<^verbatim>\<open>removeTouchedPointer\<close>,
  \<^verbatim>\<open>removeTouchedPointerFromWindow\<close>, \<^verbatim>\<open>clearHoveringPointers\<close>,
  \<^verbatim>\<open>clearWindowsWithoutPointers\<close>, \<^verbatim>\<open>addHoveringPointerToWindow\<close>,
  \<^verbatim>\<open>removeWindowByToken\<close>, \<^verbatim>\<open>cancelPointersForWindowsExcept\<close>,
  \<^verbatim>\<open>cancelPointersForNonPilferingWindows\<close> and \<^verbatim>\<open>removeHoveringPointer\<close>. After
  \<^verbatim>\<open>addOrUpdateWindow\<close> none does, with exactly two exceptions: an update whose flags
  include \<^verbatim>\<open>DISPATCH_AS_IS\<close> and not \<^verbatim>\<open>DISPATCH_AS_SLIPPERY_EXIT\<close>, of an entry
  that includes \<^verbatim>\<open>DISPATCH_AS_SLIPPERY_EXIT\<close>; and an insert whose flags include both.
  After \<^verbatim>\<open>filterNonAsIsTouchWindows\<close> no entry includes both, provided
  \<^verbatim>\<open>DISPATCH_AS_SLIPPERY_EXIT\<close> lies inside \<^verbatim>\<open>DISPATCH_MASK\<close> and is disjoint from
  \<^verbatim>\<open>DISPATCH_AS_IS\<close>.
\<close>

theorem slippery_exit_exclusive_amended:
  "(test tf (DISPATCH_AS_SLIPPERY_EXIT K) \<and> windows s = pre @ w # post \<and> windowHandle w = h \<and>
      h \<notin> set (map windowHandle pre) \<longrightarrow>
      (\<exists>w'. windows (addOrUpdateWindow K h tf pids fdt s) = pre @ w' # post \<and>
            windowHandle w' = h \<and> \<not> test (targetFlags w') (DISPATCH_AS_IS K) \<and>
            (DISPATCH_AS_SLIPPERY_EXIT K AND DISPATCH_AS_IS K = 0 \<longrightarrow>
               test (targetFlags w') (DISPATCH_AS_SLIPPERY_EXIT K))))
   \<and> (h \<notin> set (map windowHandle (windows s)) \<longrightarrow>
        targetFlags (last (windows (addOrUpdateWindow K h tf pids fdt s))) = tf)
   \<and> (slippery_exit_exclusive K s \<longrightarrow>
        slippery_exit_exclusive K (reset d0 src0 s)
        \<and> slippery_exit_exclusive K (removeTouchedPointer pid s)
        \<and> slippery_exit_exclusive K (removeTouchedPointerFromWindow pid h s)
        \<and> slippery_exit_exclusive K (clearHoveringPointers s)
        \<and> slippery_exit_exclusive K (clearWindowsWithoutPointers s)
        \<and> slippery_exit_exclusive K (addHoveringPointerToWindow h d pid s)
        \<and> slippery_exit_exclusive K (removeWindowByToken info tok s)
        \<and> slippery_exit_exclusive K (cancelPointersForWindowsExcept info pids tok s)
        \<and> slippery_exit_exclusive K (cancelPointersForNonPilferingWindows s)
        \<and> slippery_exit_exclusive K (removeHoveringPointer d pid s)
        \<and> (windows s = pre @ w # post \<and> windowHandle w = h \<and>
             h \<notin> set (map windowHandle pre) \<longrightarrow>
             (slippery_exit_exclusive K (addOrUpdateWindow K h tf pids fdt s) \<longleftrightarrow>
              \<not> (test tf (DISPATCH_AS_IS K) \<and> \<not> test tf (DISPATCH_AS_SLIPPERY_EXIT K) \<and>
                 test (targetFlags w) (DISPATCH_AS_SLIPPERY_EXIT K))))
        \<and> (h \<notin> set (map windowHandle (windows s)) \<longrightarrow>
             (slippery_exit_exclusive K (addOrUpdateWindow K h tf pids fdt s) \<longleftrightarrow>
              \<not> (test tf (DISPATCH_AS_SLIPPERY_EXIT K) \<and> test tf (DISPATCH_AS_IS K)))))
   \<and> (DISPATCH_AS_SLIPPERY_EXIT K AND NOT (DISPATCH_MASK K) = 0 \<and>
        DISPATCH_AS_SLIPPERY_EXIT K AND DISPATCH_AS_IS K = 0 \<longrightarrow>
        slippery_exit_exclusive K (filterNonAsIsTouchWindows K s))"
proof (intro conjI impI)
  assume a: "test tf (DISPATCH_AS_SLIPPERY_EXIT K) \<and> windows s = pre @ w # post \<and>
      windowHandle w = h \<and> h \<notin> set (map windowHandle pre)"
  then have "windows (addOrUpdateWindow K h tf pids fdt s) =
         pre @ w\<lparr>targetFlags := (targetFlags w OR tf) AND NOT (DISPATCH_AS_IS K),
                  pointerIds := pointerIds w OR pids,
                  firstDownTimeInTarget := (case firstDownTimeInTarget w of
                                              None \<Rightarrow> fdt | Some t \<Rightarrow> Some t)\<rparr> # post"
    by (simp add: addOrUpdateWindow_def addOrUpdateWindow_loop_found)
  with a show "\<exists>w'. windows (addOrUpdateWindow K h tf pids fdt s) = pre @ w' # post \<and>
            windowHandle w' = h \<and> \<not> test (targetFlags w') (DISPATCH_AS_IS K) \<and>
            (DISPATCH_AS_SLIPPERY_EXIT K AND DISPATCH_AS_IS K = 0 \<longrightarrow>
               test (targetFlags w') (DISPATCH_AS_SLIPPERY_EXIT K))"
    by (simp add: test_and_not_self test_slippery_exit_kept)
next
  assume "h \<notin> set (map windowHandle (windows s))"
  then show "targetFlags (last (windows (addOrUpdateWindow K h tf pids fdt s))) = tf"
    by (simp add: addOrUpdateWindow_def addOrUpdateWindow_loop_absent)
next
  assume inv: "slippery_exit_exclusive K s"
  note keep = subseq_flags_list_all [where P = "\<lambda>f. \<not> (test f (DISPATCH_AS_SLIPPERY_EXIT K) \<and>
                       test f (DISPATCH_AS_IS K))", OF _ inv]
  show "slippery_exit_exclusive K (reset d0 src0 s)"
    by (simp add: reset_def)
  show "slippery_exit_exclusive K (removeTouchedPointer pid s)"
    by (rule keep) (simp add: removeTouchedPointer_handle_flags)
  show "slippery_exit_exclusive K (removeTouchedPointerFromWindow pid h s)"
    by (rule keep) (simp add: removeTouchedPointerFromWindow_handle_flags)
  show "slippery_exit_exclusive K (clearHoveringPointers s)"
    by (rule keep) (simp add: clearHoveringPointers_handle_flags)
  show "slippery_exit_exclusive K (clearWindowsWithoutPointers s)"
    by (rule keep) (rule clearWindowsWithoutPointers_handle_flags)
  show "slippery_exit_exclusive K (addHoveringPointerToWindow h d pid s)"
    using inv by (rule addHoveringPointerToWindow_exclusive)
  show "slippery_exit_exclusive K (removeWindowByToken info tok s)"
    by (rule keep) (rule removeWindowByToken_handle_flags)
  show "slippery_exit_exclusive K (cancelPointersForWindowsExcept info pids tok s)"
    by (rule keep) (rule cancelPointersForWindowsExcept_handle_flags)
  show "slippery_exit_exclusive K (cancelPointersForNonPilferingWindows s)"
    by (rule keep) (rule cancelPointersForNonPilferingWindows_handle_flags)
  show "slippery_exit_exclusive K (removeHoveringPointer d pid s)"
    by (rule keep) (rule removeHoveringPointer_handle_flags)
  show "slippery_exit_exclusive K (addOrUpdateWindow K h tf pids fdt s) \<longleftrightarrow>
        \<not> (test tf (DISPATCH_AS_IS K) \<and> \<not> test tf (DISPATCH_AS_SLIPPERY_EXIT K) \<and>
           test (targetFlags w) (DISPATCH_AS_SLIPPERY_EXIT K))"
    if "windows s = pre @ w # post \<and> windowHandle w = h \<and> h \<notin> set (map windowHandle pre)"
    using that addOrUpdateWindow_update_exclusive_iff [OF inv, of pre w post h tf pids fdt]
    by blast
  show "slippery_exit_exclusive K (addOrUpdateWindow K h tf pids fdt s) \<longleftrightarrow>
        \<not> (test tf (DISPATCH_AS_SLIPPERY_EXIT K) \<and> test tf (DISPATCH_AS_IS K))"
    if "h \<notin> set (map windowHandle (windows s))"
    using inv that by (rule addOrUpdateWindow_insert_exclusive_iff)
next
  assume "DISPATCH_AS_SLIPPERY_EXIT K AND NOT (DISPATCH_MASK K) = 0 \<and>
        DISPATCH_AS_SLIPPERY_EXIT K AND DISPATCH_AS_IS K = 0"
  then show "slippery_exit_exclusive K (filterNonAsIsTouchWindows K s)"
    by (elim conjE) (rule filterNonAsIsTouchWindows_exclusive)
qed

text \<open>
  On \<open>two_windows\<close>, where no entry includes both flags. Window 1 includes
  \<^verbatim>\<open>DISPATCH_AS_IS\<close>; updated with \<^verbatim>\<open>DISPATCH_AS_SLIPPERY_EXIT\<close> (\<open>0x1000\<close>) its
  flags are \<open>0x1001\<close>, and the exclusion holds. Window 2 does not include
  \<^verbatim>\<open>DISPATCH_AS_SLIPPERY_EXIT\<close>; updated with \<^verbatim>\<open>DISPATCH_AS_IS\<close> (\<open>0x100\<close>) the
  exclusion holds. Window 3 inserted with \<^verbatim>\<open>DISPATCH_AS_IS\<close> and then updated with
  \<^verbatim>\<open>DISPATCH_AS_SLIPPERY_EXIT\<close> ends with flags \<open>0x1000\<close>. Inserted with both flags
  (\<open>0x1100\<close>) it breaks the exclusion.
\<close>

theorem slippery_exit_exclusive_amended_witness:
  "test 0x1000 (DISPATCH_AS_SLIPPERY_EXIT flags0)
   \<and> windows two_windows = [] @ (windows two_windows ! 0) # [windows two_windows ! 1]
   \<and> windowHandle (windows two_windows ! 0) = 1
   \<and> test (targetFlags (windows two_windows ! 0)) (DISPATCH_AS_IS flags0)
   \<and> targetFlags (windows (addOrUpdateWindow flags0 1 0x1000 0 None two_windows) ! 0) = 0x1001
   \<and> slippery_exit_exclusive flags0 two_windows
   \<and> slippery_exit_exclusive flags0 (addOrUpdateWindow flags0 1 0x1000 0 None two_windows)
   \<and> windows two_windows = [windows two_windows ! 0] @ (windows two_windows ! 1) # []
   \<and> windowHandle (windows two_windows ! 1) = 2
   \<and> 2 \<notin> set (map windowHandle [windows two_windows ! 0])
   \<and> test 0x100 (DISPATCH_AS_IS flags0)
   \<and> \<not> test (targetFlags (windows two_windows ! 1)) (DISPATCH_AS_SLIPPERY_EXIT flags0)
   \<and> slippery_exit_exclusive flags0 (addOrUpdateWindow flags0 2 0x100 0 None two_windows)
   \<and> 3 \<notin> set (map windowHandle (windows two_windows))
   \<and> targetFlags (last (windows (addOrUpdateWindow flags0 3 0x100 0 None two_windows))) = 0x100
   \<and> slippery_exit_exclusive flags0 (addOrUpdateWindow flags0 3 0x100 0 None two_windows)
   \<and> targetFlags (last (windows (addOrUpdateWindow flags0 3 0x1000 0 None
         (addOrUpdateWindow flags0 3 0x100 0 None two_windows)))) = 0x1000
   \<and> test 0x1100 (DISPATCH_AS_SLIPPERY_EXIT flags0) \<and> test 0x1100 (DISPATCH_AS_IS flags0)
   \<and> \<not> slippery_exit_exclusive flags0 (addOrUpdateWindow flags0 3 0x1100 0 None two_windows)
   \<and> DISPATCH_AS_SLIPPERY_EXIT flags0 AND NOT (DISPATCH_MASK flags0) = 0
   \<and> DISPATCH_AS_SLIPPERY_EXIT flags0 AND DISPATCH_AS_IS flags0 = 0
   \<and> slippery_exit_exclusive flags0 (filterNonAsIsTouchWindows flags0 two_windows)"
  using
    slippery_exit_exclusive_amended [where tf = "0x1000" and K = flags0 and s = two_windows
      and pre = "[]" and w = "windows two_windows ! 0" and post = "[windows two_windows ! 1]"
      and h = 1 and pids = 0 and fdt = None and d0 = 0 and ?src0.0 = 0 and pid = 0 and d = 5
      and info = store0 and tok = 10]
    slippery_exit_exclusive_amended [where tf = "0x100" and K = flags0 and s = two_windows
      and pre = "[windows two_windows ! 0]" and w = "windows two_windows ! 1" and post = "[]"
      and h = 2 and pids = 0 and fdt = None and d0 = 0 and ?src0.0 = 0 and pid = 0 and d = 5
      and info = store0 and tok = 10]
    slippery_exit_exclusive_amended [where tf = "0x100" and K = flags0 and s = two_windows
      and pre = "[]" and w = "windows two_windows ! 0" and post = "[windows two_windows ! 1]"
      and h = 3 and pids = 0 and fdt = None and d0 = 0 and ?src0.0 = 0 and pid = 0 and d = 5
      and info = store0 and tok = 10]
    slippery_exit_exclusive_amended [where tf = "0x1100" and K = flags0 and s = two_windows
      and pre = "[]" and w = "windows two_windows ! 0" and post = "[windows two_windows ! 1]"
      and h = 3 and pids = 0 and fdt = None and d0 = 0 and ?src0.0 = 0 and pid = 0 and d = 5
      and info = store0 and tok = 10]
  by (simp add: two_windows_def flags0_def test_def addOrUpdateWindow_def clear_def
        TouchedWindow_def filterNonAsIsTouchWindows_def filterNonAsIsTouchWindows_loop_eq)

text \<open>
  Claim C4 as stated fails. Inserting window 3 with flags \<open>0x1100\<close>, which include
  both \<^verbatim>\<open>DISPATCH_AS_SLIPPERY_EXIT\<close> and \<^verbatim>\<open>DISPATCH_AS_IS\<close>, gives an entry with
  both. Updating window 1 with \<^verbatim>\<open>DISPATCH_AS_SLIPPERY_EXIT\<close> and then with
  \<^verbatim>\<open>DISPATCH_AS_IS\<close> gives flags \<open>0x1101\<close>, again with both.
\<close>

theorem slippery_exit_with_as_is:
  "3 \<notin> set (map windowHandle (windows two_windows))
   \<and> test 0x1100 (DISPATCH_AS_SLIPPERY_EXIT flags0)
   \<and> targetFlags (last (windows (addOrUpdateWindow flags0 3 0x1100 1 None two_windows))) = 0x1100
   \<and> test (targetFlags (last (windows (addOrUpdateWindow flags0 3 0x1100 1 None two_windows))))
        (DISPATCH_AS_SLIPPERY_EXIT flags0)
   \<and> test (targetFlags (last (windows (addOrUpdateWindow flags0 3 0x1100 1 None two_windows))))
        (DISPATCH_AS_IS flags0)
   \<and> targetFlags (windows (addOrUpdateWindow flags0 1 0x100 0 None
                     (addOrUpdateWindow flags0 1 0x1000 0 None two_windows)) ! 0) = 0x1101
   \<and> test 0x1101 (DISPATCH_AS_SLIPPERY_EXIT flags0) \<and> test 0x1101 (DISPATCH_AS_IS flags0)"
  by (simp add: two_windows_def flags0_def test_def addOrUpdateWindow_def clear_def
        TouchedWindow_def)

subsection \<open>\<^verbatim>\<open>isSlippery\<close>\<close>

text \<open>
  Claim C5. \<^verbatim>\<open>isSlippery()\<close> is true if and only if exactly one entry has
  \<^verbatim>\<open>FOREGROUND\<close> set (the list of foreground entries is a singleton) and the input
  configuration of that entry's window includes \<^verbatim>\<open>SLIPPERY\<close>. So it is false with
  no foreground entry, with two or more, and with a single one that is not slippery.
\<close>

theorem isSlippery_iff:
  "isSlippery K info s \<longleftrightarrow>
     (\<exists>w. filter (\<lambda>w. test (targetFlags w) (FOREGROUND K)) (windows s) = [w]
          \<and> test (inputConfig (info (windowHandle w))) (SLIPPERY K))"
proof -
  have "isSlippery K info s = isSlippery_loop K info False (windows s)"
    by (simp add: isSlippery_def)
  also have "\<dots> =
     (\<exists>w. filter (\<lambda>w. test (targetFlags w) (FOREGROUND K)) (windows s) = [w]
          \<and> test (inputConfig (info (windowHandle w))) (SLIPPERY K))"
    by (simp add: isSlippery_loop_eq)
  finally show ?thesis .
qed

text \<open>
  \<open>two_windows\<close> has one foreground window, which is slippery. Without windows, with
  that window twice, and with a store where it is not slippery, the answer is false.
\<close>

theorem isSlippery_iff_witness:
  "isSlippery flags0 store0 two_windows
   \<and> filter (\<lambda>w. test (targetFlags w) (FOREGROUND flags0)) (windows two_windows)
       = [windows two_windows ! 0]
   \<and> test (inputConfig (store0 (windowHandle (windows two_windows ! 0)))) (SLIPPERY flags0)
   \<and> \<not> isSlippery flags0 store0 (two_windows\<lparr>windows := []\<rparr>)
   \<and> \<not> isSlippery flags0 store0
         (two_windows\<lparr>windows := [windows two_windows ! 0, windows two_windows ! 0]\<rparr>)
   \<and> \<not> isSlippery flags0 (\<lambda>h. (store0 h)\<lparr>inputConfig := 0\<rparr>) two_windows"
  using isSlippery_iff [of flags0 store0 two_windows]
  by (simp add: two_windows_def flags0_def store0_def test_def isSlippery_def)

subsection \<open>Unique window handles\<close>

text \<open>
  Claim C6. If no two entries of a state have the same window handle, the same is true
  after each of the twelve mutating operations. \<^verbatim>\<open>addOrUpdateWindow\<close> and
  \<^verbatim>\<open>addHoveringPointerToWindow\<close> leave the sequence of handles as it is when an entry
  with the handle is present, and append the handle when none is.
\<close>

theorem window_handles_stay_unique:
  assumes "distinct (map windowHandle (windows s))"
  shows "distinct (map windowHandle (windows (reset d0 src0 s)))
       \<and> distinct (map windowHandle (windows (removeTouchedPointer pid s)))
       \<and> distinct (map windowHandle (windows (removeTouchedPointerFromWindow pid h s)))
       \<and> distinct (map windowHandle (windows (clearHoveringPointers s)))
       \<and> distinct (map windowHandle (windows (clearWindowsWithoutPointers s)))
       \<and> distinct (map windowHandle (windows (addOrUpdateWindow K h tf pids fdt s)))
       \<and> distinct (map windowHandle (windows (addHoveringPointerToWindow h d pid s)))
       \<and> distinct (map windowHandle (windows (removeWindowByToken info tok s)))
       \<and> distinct (map windowHandle (windows (filterNonAsIsTouchWindows K s)))
       \<and> distinct (map windowHandle (windows (cancelPointersForWindowsExcept info pids tok s)))
       \<and> distinct (map windowHandle (windows (cancelPointersForNonPilferingWindows s)))
       \<and> distinct (map windowHandle (windows (removeHoveringPointer d pid s)))
       \<and> map windowHandle (windows (addOrUpdateWindow K h tf pids fdt s)) =
           (if h \<in> set (map windowHandle (windows s)) then map windowHandle (windows s)
            else map windowHandle (windows s) @ [h])
       \<and> map windowHandle (windows (addHoveringPointerToWindow h d pid s)) =
           (if h \<in> set (map windowHandle (windows s)) then map windowHandle (windows s)
            else map windowHandle (windows s) @ [h])"
proof (intro conjI)
  note keep = subseq_handles_distinct [OF _ assms]
  show "distinct (map windowHandle (windows (reset d0 src0 s)))"
    by (simp add: reset_def)
  show "distinct (map windowHandle (windows (removeTouchedPointer pid s)))"
    by (rule keep) (simp add: removeTouchedPointer_handle_flags)
  show "distinct (map windowHandle (windows (removeTouchedPointerFromWindow pid h s)))"
    by (rule keep) (simp add: removeTouchedPointerFromWindow_handle_flags)
  show "distinct (map windowHandle (windows (clearHoveringPointers s)))"
    by (rule keep) (simp add: clearHoveringPointers_handle_flags)
  show "distinct (map windowHandle (windows (clearWindowsWithoutPointers s)))"
    by (rule keep) (rule clearWindowsWithoutPointers_handle_flags)
  show "distinct (map windowHandle (windows (removeWindowByToken info tok s)))"
    by (rule keep) (rule removeWindowByToken_handle_flags)
  show "distinct (map windowHandle (windows (filterNonAsIsTouchWindows K s)))"
    using filterNonAsIsTouchWindows_handles assms by (rule subseq_distinct)
  show "distinct (map windowHandle (windows (cancelPointersForWindowsExcept info pids tok s)))"
    by (rule keep) (rule cancelPointersForWindowsExcept_handle_flags)
  show "distinct (map windowHandle (windows (cancelPointersForNonPilferingWindows s)))"
    by (rule keep) (rule cancelPointersForNonPilferingWindows_handle_flags)
  show "distinct (map windowHandle (windows (removeHoveringPointer d pid s)))"
    by (rule keep) (rule removeHoveringPointer_handle_flags)
  show upsert: "map windowHandle (windows (addOrUpdateWindow K h tf pids fdt s)) =
           (if h \<in> set (map windowHandle (windows s)) then map windowHandle (windows s)
            else map windowHandle (windows s) @ [h])"
    by (simp add: addOrUpdateWindow_def addOrUpdateWindow_loop_handles)
  show hover: "map windowHandle (windows (addHoveringPointerToWindow h d pid s)) =
           (if h \<in> set (map windowHandle (windows s)) then map windowHandle (windows s)
            else map windowHandle (windows s) @ [h])"
    by (simp add: addHoveringPointerToWindow_def addHoveringPointerToWindow_loop_handles)
  show "distinct (map windowHandle (windows (addOrUpdateWindow K h tf pids fdt s)))"
    using assms by (simp only: upsert split: if_splits) simp
  show "distinct (map windowHandle (windows (addHoveringPointerToWindow h d pid s)))"
    using assms by (simp only: hover split: if_splits) simp
qed

text \<open>
  On \<open>two_windows\<close> (handles 1 and 2): adding for handle 2 or 1 keeps the handles,
  adding for handle 3 appends it.
\<close>

theorem window_handles_stay_unique_witness:
  "distinct (map windowHandle (windows two_windows))
   \<and> map windowHandle (windows (addOrUpdateWindow flags0 2 0x100 1 (Some 5) two_windows)) = [1, 2]
   \<and> map windowHandle (windows (addOrUpdateWindow flags0 3 0x100 1 (Some 5) two_windows)) = [1, 2, 3]
   \<and> map windowHandle (windows (addHoveringPointerToWindow 1 5 0 two_windows)) = [1, 2]
   \<and> map windowHandle (windows (addHoveringPointerToWindow 3 5 0 two_windows)) = [1, 2, 3]
   \<and> distinct (map windowHandle (windows (addOrUpdateWindow flags0 3 0x100 1 (Some 5) two_windows)))
   \<and> distinct (map windowHandle (windows (removeWindowByToken store0 10 two_windows)))"
  using window_handles_stay_unique [of two_windows 0 0 0 2 flags0 "0x100" 1 "Some 5" 5 store0 10]
    window_handles_stay_unique [of two_windows 0 0 0 3 flags0 "0x100" 1 "Some 5" 5 store0 10]
    window_handles_stay_unique [of two_windows 0 0 0 1 flags0 "0x100" 1 "Some 5" 5 store0 10]
  by (simp add: two_windows_def)

subsection \<open>\<^verbatim>\<open>getTouchedWindow\<close>\<close>

text \<open>
  Claim C7. \<^verbatim>\<open>getTouchedWindow(windowHandle)\<close> returns the first entry whose handle is
  the argument when there is one; when there is none it aborts with the message
  "Could not find" followed by the window's name and returns nothing. When a matching
  entry exists the abort is not reached.
\<close>

theorem getTouchedWindow_spec:
  "(\<forall>pre w post. windows s = pre @ w # post \<and> windowHandle w = h \<and>
        (\<forall>v\<in>set pre. windowHandle v \<noteq> h) \<longrightarrow> getTouchedWindow info h s = Inr w)
   \<and> ((\<forall>w\<in>set (windows s). windowHandle w \<noteq> h) \<longrightarrow>
        getTouchedWindow info h s = Inl (Fatal (''Could not find '' @ getName (info h))))
   \<and> ((\<exists>w\<in>set (windows s). windowHandle w = h) \<longrightarrow>
        (\<exists>w\<in>set (windows s). windowHandle w = h \<and> getTouchedWindow info h s = Inr w))"
proof (intro conjI allI impI)
  fix pre w post
  assume "windows s = pre @ w # post \<and> windowHandle w = h \<and> (\<forall>v\<in>set pre. windowHandle v \<noteq> h)"
  then show "getTouchedWindow info h s = Inr w"
    by (simp add: getTouchedWindow_def find_first)
next
  assume "\<forall>w\<in>set (windows s). windowHandle w \<noteq> h"
  then have "find (\<lambda>w. windowHandle w = h) (windows s) = None"
    by (simp add: find_None_iff)
  then show "getTouchedWindow info h s = Inl (Fatal (''Could not find '' @ getName (info h)))"
    by (simp add: getTouchedWindow_def)
next
  assume "\<exists>w\<in>set (windows s). windowHandle w = h"
  then obtain w where w: "find (\<lambda>w. windowHandle w = h) (windows s) = Some w"
    by (cases "find (\<lambda>w. windowHandle w = h) (windows s)") (auto simp: find_None_iff)
  then have "w \<in> set (windows s) \<and> windowHandle w = h"
    by (auto simp: find_Some_iff)
  with w show "\<exists>w\<in>set (windows s). windowHandle w = h \<and> getTouchedWindow info h s = Inr w"
    by (auto simp: getTouchedWindow_def)
qed

text \<open>Handle 2 is the second entry of \<open>two_windows\<close>; handle 3 (named C) has none.\<close>

theorem getTouchedWindow_spec_witness:
  "windows two_windows = [windows two_windows ! 0] @ (windows two_windows ! 1) # []
   \<and> windowHandle (windows two_windows ! 1) = 2
   \<and> windowHandle (windows two_windows ! 0) \<noteq> 2
   \<and> getTouchedWindow store0 2 two_windows = Inr (windows two_windows ! 1)
   \<and> 3 \<notin> set (map windowHandle (windows two_windows))
   \<and> getTouchedWindow store0 3 two_windows = Inl (Fatal ''Could not find C'')"
  using getTouchedWindow_spec [of two_windows 2 store0] getTouchedWindow_spec [of two_windows 3 store0]
  by (simp add: two_windows_def store0_def getTouchedWindow_def)

subsection \<open>\<^verbatim>\<open>filterNonAsIsTouchWindows\<close>\<close>

text \<open>
  Claim C8. \<^verbatim>\<open>filterNonAsIsTouchWindows()\<close> removes exactly the entries whose flags
  include neither \<^verbatim>\<open>DISPATCH_AS_IS\<close> nor \<^verbatim>\<open>DISPATCH_AS_SLIPPERY_ENTER\<close>: the
  result corresponds, entry by entry and in the same order, to the original entries that
  include one of the two. A surviving entry differs from its original in the flags only;
  its bits under \<^verbatim>\<open>DISPATCH_MASK\<close> are exactly \<^verbatim>\<open>DISPATCH_AS_IS\<close> and its bits
  outside the mask are those of the original. What is needed of the constants is that
  \<^verbatim>\<open>DISPATCH_AS_IS\<close> lies inside the mask.
\<close>

theorem filterNonAsIsTouchWindows_spec:
  assumes "DISPATCH_AS_IS K AND DISPATCH_MASK K = DISPATCH_AS_IS K"
  shows "list_all2
           (\<lambda>w w'. w' = w\<lparr>targetFlags := targetFlags w'\<rparr>
                  \<and> targetFlags w' AND DISPATCH_MASK K = DISPATCH_AS_IS K
                  \<and> targetFlags w' AND NOT (DISPATCH_MASK K) = targetFlags w AND NOT (DISPATCH_MASK K))
           (filter (\<lambda>w. test (targetFlags w) (DISPATCH_AS_IS K) \<or>
                        test (targetFlags w) (DISPATCH_AS_SLIPPERY_ENTER K))
              (windows s))
           (windows (filterNonAsIsTouchWindows K s))
         \<and> deviceId (filterNonAsIsTouchWindows K s) = deviceId s
         \<and> source (filterNonAsIsTouchWindows K s) = source s"
proof -
  have "windows (filterNonAsIsTouchWindows K s) =
          map (\<lambda>w. w\<lparr>targetFlags := (targetFlags w AND NOT (DISPATCH_MASK K)) OR DISPATCH_AS_IS K\<rparr>)
            (filter (\<lambda>w. test (targetFlags w) (DISPATCH_AS_IS K) \<or>
                        test (targetFlags w) (DISPATCH_AS_SLIPPERY_ENTER K))
              (windows s))"
    by (simp add: filterNonAsIsTouchWindows_def filterNonAsIsTouchWindows_loop_eq)
  then show ?thesis
    by (simp add: list_all2_map2 list_all2_same mode_bits_replaced [OF assms]
          other_bits_kept [OF assms] filterNonAsIsTouchWindows_def)
qed

text \<open>
  On \<open>mixed_modes\<close>: the window with \<^verbatim>\<open>FOREGROUND | DISPATCH_AS_IS\<close> keeps its
  flags, the one with only another mode bit (\<open>0x200\<close>) is removed, and the one with
  \<^verbatim>\<open>DISPATCH_AS_SLIPPERY_ENTER\<close> and bit 1 ends with \<^verbatim>\<open>DISPATCH_AS_IS\<close> and bit 1.
\<close>

theorem filterNonAsIsTouchWindows_spec_witness:
  "DISPATCH_AS_IS flags0 AND DISPATCH_MASK flags0 = DISPATCH_AS_IS flags0
   \<and> map windowHandle (windows (filterNonAsIsTouchWindows flags0 mixed_modes)) = [1, 3]
   \<and> map targetFlags (windows (filterNonAsIsTouchWindows flags0 mixed_modes)) = [0x101, 0x102]
   \<and> map targetFlags (filter (\<lambda>w. test (targetFlags w) (DISPATCH_AS_IS flags0) \<or>
                        test (targetFlags w) (DISPATCH_AS_SLIPPERY_ENTER flags0))
              (windows mixed_modes)) = [0x101, 0x2002]"
  using filterNonAsIsTouchWindows_spec [of flags0 mixed_modes]
  by (simp add: flags0_def mixed_modes_def filterNonAsIsTouchWindows_def
        filterNonAsIsTouchWindows_loop_eq test_def)

subsection \<open>\<^verbatim>\<open>removeTouchedPointer\<close> is idempotent\<close>

text \<open>
  Claim C9. For every state and every pointer id, \<^verbatim>\<open>removeTouchedPointer(id)\<close> applied
  twice gives exactly the state that one application gives, and an entry whose touching
  set does not hold the pointer is left as it was. (\<^verbatim>\<open>removeTouchingPointer\<close> is the
  spec's set operation, see above.)
\<close>

theorem removeTouchedPointer_idempotent:
  "removeTouchedPointer pid (removeTouchedPointer pid s) = removeTouchedPointer pid s
   \<and> (\<forall>i<length (windows s).
        \<not> (0 \<le> sint pid \<and> bit (pointerIds (windows s ! i)) (nat (sint pid)))
        \<longrightarrow> windows (removeTouchedPointer pid s) ! i = windows s ! i)"
proof (intro conjI allI impI)
  show "removeTouchedPointer pid (removeTouchedPointer pid s) = removeTouchedPointer pid s"
    by (simp add: removeTouchedPointer_def removeTouchingPointer_idem)
next
  fix i
  assume "i < length (windows s)"
    and "\<not> (0 \<le> sint pid \<and> bit (pointerIds (windows s ! i)) (nat (sint pid)))"
  then show "windows (removeTouchedPointer pid s) ! i = windows s ! i"
    by (simp add: removeTouchedPointer_def removeTouchingPointer_absent)
qed

text \<open>
  On \<open>two_windows\<close> with pointer 1: the second window touches only pointer 2 and is
  unchanged, the first goes from \<open>{1, 2}\<close> to \<open>{2}\<close>.
\<close>

theorem removeTouchedPointer_idempotent_witness:
  "removeTouchedPointer 1 (removeTouchedPointer 1 two_windows) = removeTouchedPointer 1 two_windows
   \<and> (1::nat) < length (windows two_windows)
   \<and> \<not> (0 \<le> sint (1::int32_t) \<and> bit (pointerIds (windows two_windows ! 1)) (nat (sint (1::int32_t))))
   \<and> windows (removeTouchedPointer 1 two_windows) ! 1 = windows two_windows ! 1
   \<and> pointerIds (windows (removeTouchedPointer 1 two_windows) ! 0) = 4"
  using removeTouchedPointer_idempotent [of 1 two_windows]
  by (simp add: two_windows_def removeTouchedPointer_def removeTouchingPointer_def unset_bit_eq_and_not)

subsection \<open>\<^verbatim>\<open>cancelPointersForNonPilferingWindows\<close>: what it leaves alone\<close>

text \<open>
  Claim C10. \<^verbatim>\<open>cancelPointersForNonPilferingWindows()\<close> changes touching sets and the
  membership of \<^verbatim>\<open>windows\<close> only: with the touching sets blanked out, the resulting
  entries are a subsequence of the original ones, so every surviving entry keeps its
  handle, flags, pilfered set, hovering set and first down time, and the survivors keep
  their order. The device id and the source are unchanged.
\<close>

theorem cancelPointersForNonPilferingWindows_frame:
  "subseq (map (\<lambda>w. w\<lparr>pointerIds := 0\<rparr>) (windows (cancelPointersForNonPilferingWindows s)))
          (map (\<lambda>w. w\<lparr>pointerIds := 0\<rparr>) (windows s))
   \<and> deviceId (cancelPointersForNonPilferingWindows s) = deviceId s
   \<and> source (cancelPointersForNonPilferingWindows s) = source s"
proof (cases "allPilferedPointerIds (windows s) = 0")
  case True
  then have "cancelPointersForNonPilferingWindows s = s"
    by (simp add: cancelPointersForNonPilferingWindows_def)
  then show ?thesis by simp
next
  case False
  then have "cancelPointersForNonPilferingWindows s =
    s\<lparr>windows := filter (\<lambda>w. \<not> pointerIds w = 0)
       (map (\<lambda>w. w\<lparr>pointerIds := pointerIds w AND
               NOT (pilferedPointerIds w XOR allPilferedPointerIds (windows s))\<rparr>)
            (windows s))\<rparr>"
    by (simp add: cancelPointersForNonPilferingWindows_def Let_def)
  then show ?thesis
    by (simp add: subseq_filter_map_frame)
qed

text \<open>
  On \<open>pilfer_erased\<close> window 1 pilfers pointer 1; window 3 touches only that pointer and
  is erased, windows 1 and 2 stay, in this order.
\<close>

theorem cancelPointersForNonPilferingWindows_frame_witness:
  "map windowHandle (windows (cancelPointersForNonPilferingWindows pilfer_erased)) = [1, 2]
   \<and> subseq (map (\<lambda>w. w\<lparr>pointerIds := 0\<rparr>) (windows (cancelPointersForNonPilferingWindows pilfer_erased)))
          (map (\<lambda>w. w\<lparr>pointerIds := 0\<rparr>) (windows pilfer_erased))"
  using cancelPointersForNonPilferingWindows_frame [of pilfer_erased]
  by (simp add: pilfer_erased_def cancelPointersForNonPilferingWindows_def allPilferedPointerIds_def)

end
